theory Spec2Isabelle
  imports Main
begin

section \<open>JavaScript values and errors\<close>

text \<open>
  The backend is two JavaScript classes: \<open>GitHubService\<close> (one method per use of the
  remote platform's REST interface) and \<open>TestRunController\<close> (the HTTP handlers and
  the in-memory registry \<open>activeRuns\<close>). Every thrown value is an \<open>Error\<close> object:
  it has a \<open>name\<close> (the class name, \<open>Error\<close> for \<open>new Error(...)\<close>), a
  \<open>message\<close>, and, when it comes from the HTTP client after the platform answered
  with a failure status, a \<open>response\<close>.
\<close>

datatype http_response =
  HttpResponse (http_status: nat) (data_message: "string option") (statusText: string)

datatype js_error =
  JsError (error_name: string) (error_message: string) (error_response: "http_response option")

text \<open>\<open>new Error(m)\<close>.\<close>

definition Error :: "string \<Rightarrow> js_error" where
  "Error m = JsError ''Error'' m None"

text \<open>
  The part of a request body that the controller inspects before using it:
  \<open>!v\<close> is true for \<open>undefined\<close>, \<open>null\<close>, \<open>false\<close>, \<open>0\<close> and the empty string.
\<close>

datatype js_value = Undefined | Null | Boolean bool | Number int | String string | Object

fun truthy :: "js_value \<Rightarrow> bool" where
  "truthy Undefined = False"
| "truthy Null = False"
| "truthy (Boolean b) = b"
| "truthy (Number n) = (n \<noteq> 0)"
| "truthy (String s) = (s \<noteq> [])"
| "truthy Object = True"

fun typeof :: "js_value \<Rightarrow> string" where
  "typeof Undefined = ''undefined''"
| "typeof Null = ''object''"
| "typeof (Boolean b) = ''boolean''"
| "typeof (Number n) = ''number''"
| "typeof (String s) = ''string''"
| "typeof Object = ''object''"

text \<open>\<open>a || b\<close> on strings that may be absent: \<open>b\<close> when \<open>a\<close> is absent or empty.\<close>

fun or_else :: "string option \<Rightarrow> string \<Rightarrow> string" where
  "or_else None d = d"
| "or_else (Some s) d = (if s = [] then d else s)"

section \<open>The remote platform\<close>

text \<open>
  What the platform sends back for a workflow run, a job and a step (the fields the
  service reads, and \<open>head_sha\<close>, which the platform reports for every run and the
  service does not read).
\<close>

record gh_run =
  gh_id :: nat
  gh_name :: string
  gh_status :: string
  gh_conclusion :: "string option"
  gh_created_at :: string
  gh_updated_at :: string
  gh_html_url :: string
  gh_run_number :: nat
  gh_event :: string
  gh_head_branch :: string
  gh_head_sha :: string

record gh_step =
  gh_step_name :: string
  gh_step_status :: string
  gh_step_conclusion :: "string option"
  gh_step_number :: nat

record gh_job =
  gh_job_id :: nat
  gh_job_name :: string
  gh_job_status :: string
  gh_job_conclusion :: "string option"
  gh_started_at :: "string option"
  gh_completed_at :: "string option"
  gh_steps :: "gh_step list"

record gh_repo =
  full_name :: string
  default_branch :: string

text \<open>An entry of the \<open>tree\<close> array of a create-tree request.\<close>

record tree_entry =
  entry_path :: string
  entry_mode :: string
  entry_type :: string
  entry_sha :: string

text \<open>
  The requests the service issues, one constructor per endpoint, with the parts of
  the URL and of the body that vary. A workflow run id in a URL is \<open>None\<close> when the
  JavaScript value is \<open>undefined\<close> (the URL then ends in \<open>undefined\<close>).
\<close>

datatype request =
    PostUserRepos string string bool bool
  | GetRef string string string
  | GetCommit string string string
  | PostBlob string string string string
  | PostTree string string string "tree_entry list"
  | PostCommit string string string string "string list"
  | PatchRef string string string string bool
  | PostDispatch string string string string "(string \<times> string) list"
  | GetRuns string string nat
  | GetRun string string "nat option"
  | GetJobs string string "nat option"
  | GetRunLogs string string "nat option"
  | DeleteRepo string string

datatype event = Sent request | Slept nat

text \<open>
  The platform itself is outside the program. It is a parameter: a state of any type
  \<open>'r\<close> and one function per endpoint, which answers with the data the service reads
  or with the error the HTTP client throws, and moves the platform's state. Other
  writers and the platform's own scheduling are part of these functions.
\<close>

record 'r platform =
  post_user_repos :: "string \<Rightarrow> string \<Rightarrow> bool \<Rightarrow> bool \<Rightarrow> 'r \<Rightarrow> (js_error + gh_repo) \<times> 'r"
  get_ref :: "string \<Rightarrow> string \<Rightarrow> string \<Rightarrow> 'r \<Rightarrow> (js_error + string) \<times> 'r"
  get_commit :: "string \<Rightarrow> string \<Rightarrow> string \<Rightarrow> 'r \<Rightarrow> (js_error + string) \<times> 'r"
  post_blob :: "string \<Rightarrow> string \<Rightarrow> string \<Rightarrow> string \<Rightarrow> 'r \<Rightarrow> (js_error + string) \<times> 'r"
  post_tree :: "string \<Rightarrow> string \<Rightarrow> string \<Rightarrow> tree_entry list \<Rightarrow> 'r \<Rightarrow> (js_error + string) \<times> 'r"
  post_commit :: "string \<Rightarrow> string \<Rightarrow> string \<Rightarrow> string \<Rightarrow> string list \<Rightarrow> 'r \<Rightarrow> (js_error + string) \<times> 'r"
  patch_ref :: "string \<Rightarrow> string \<Rightarrow> string \<Rightarrow> string \<Rightarrow> bool \<Rightarrow> 'r \<Rightarrow> (js_error + unit) \<times> 'r"
  post_dispatch :: "string \<Rightarrow> string \<Rightarrow> string \<Rightarrow> string \<Rightarrow> (string \<times> string) list \<Rightarrow> 'r \<Rightarrow> (js_error + unit) \<times> 'r"
  get_runs :: "string \<Rightarrow> string \<Rightarrow> nat \<Rightarrow> 'r \<Rightarrow> (js_error + gh_run list \<times> nat) \<times> 'r"
  get_run :: "string \<Rightarrow> string \<Rightarrow> nat option \<Rightarrow> 'r \<Rightarrow> (js_error + gh_run) \<times> 'r"
  get_jobs :: "string \<Rightarrow> string \<Rightarrow> nat option \<Rightarrow> 'r \<Rightarrow> (js_error + gh_job list) \<times> 'r"
  get_run_logs :: "string \<Rightarrow> string \<Rightarrow> nat option \<Rightarrow> 'r \<Rightarrow> (js_error + string option) \<times> 'r"
  delete_repo :: "string \<Rightarrow> string \<Rightarrow> 'r \<Rightarrow> (js_error + unit) \<times> 'r"

text \<open>The platform's state together with the log of what the service did to it.\<close>

record 'r net =
  remote :: 'r
  trace :: "event list"

type_synonym ('r, 'a) io = "'r net \<Rightarrow> (js_error + 'a) \<times> 'r net"

text \<open>One HTTP request: it is logged, and the platform answers and moves on.\<close>

definition send :: "request \<Rightarrow> ('r \<Rightarrow> (js_error + 'a) \<times> 'r) \<Rightarrow> ('r, 'a) io" where
  "send rq f w =
     (case f (remote w) of
        (res, r') \<Rightarrow> (res, \<lparr>remote = r', trace = trace w @ [Sent rq]\<rparr>))"

text \<open>\<open>await new Promise(resolve => setTimeout(resolve, ms))\<close>.\<close>

definition sleep :: "nat \<Rightarrow> ('r, unit) io" where
  "sleep ms w = (Inr (), w\<lparr>trace := trace w @ [Slept ms]\<rparr>)"

text \<open>\<open>const x = await m; k x\<close>: a rejected promise propagates as a throw.\<close>

definition await :: "('s \<Rightarrow> (js_error + 'a) \<times> 's) \<Rightarrow> ('a \<Rightarrow> 's \<Rightarrow> (js_error + 'b) \<times> 's)
    \<Rightarrow> 's \<Rightarrow> (js_error + 'b) \<times> 's" where
  "await m k w = (case m w of (Inl e, w') \<Rightarrow> (Inl e, w') | (Inr x, w') \<Rightarrow> k x w')"

definition return :: "'a \<Rightarrow> 's \<Rightarrow> (js_error + 'a) \<times> 's" where
  "return x w = (Inr x, w)"

text \<open>\<open>try { m } catch (error) { throw h(error) }\<close>.\<close>

definition rethrow :: "(js_error \<Rightarrow> js_error) \<Rightarrow> ('s \<Rightarrow> (js_error + 'a) \<times> 's)
    \<Rightarrow> 's \<Rightarrow> (js_error + 'a) \<times> 's" where
  "rethrow h m w = (case m w of (Inl e, w') \<Rightarrow> (Inl (h e), w') | (Inr x, w') \<Rightarrow> (Inr x, w'))"

section \<open>GitHubService\<close>

text \<open>\<open>handleError(error, message)\<close>.\<close>

definition handleError :: "js_error \<Rightarrow> string \<Rightarrow> js_error" where
  "handleError error msg =
     (case error_response error of
        Some r \<Rightarrow> Error (msg @ '': '' @ or_else (data_message r) (statusText r))
      | None \<Rightarrow> Error (msg @ '': '' @ error_message error))"

text \<open>\<open>deleteRepo(owner, repo)\<close>.\<close>

definition deleteRepo :: "'r platform \<Rightarrow> string \<Rightarrow> string \<Rightarrow> ('r, string) io" where
  "deleteRepo api owner repo =
     rethrow (\<lambda>error. handleError error ''Failed to delete repository'')
       (await (send (DeleteRepo owner repo) (delete_repo api owner repo)) (\<lambda>_.
        return ''Repository deleted successfully''))"

text \<open>
  \<open>Buffer.from(content).toString('base64')\<close>: the bytes of the string, three at a
  time, as four characters of the base64 alphabet, padded with \<open>=\<close>.
\<close>

definition b64 :: string where
  "b64 = ''ABCDEFGHIJKLMNOPQRSTUVWXYZabcdefghijklmnopqrstuvwxyz0123456789+/''"

fun base64 :: "string \<Rightarrow> string" where
  "base64 (a # b # c # rest) =
     (let n = of_char a * 65536 + of_char b * 256 + (of_char c :: nat)
      in [b64 ! (n div 262144), b64 ! (n div 4096 mod 64), b64 ! (n div 64 mod 64), b64 ! (n mod 64)]
         @ base64 rest)"
| "base64 [a, b] =
     (let n = of_char a * 1024 + of_char b * (4 :: nat)
      in [b64 ! (n div 4096), b64 ! (n div 64 mod 64), b64 ! (n mod 64), CHR ''=''])"
| "base64 [a] =
     (let n = of_char a * (16 :: nat)
      in [b64 ! (n div 64), b64 ! (n mod 64), CHR ''='', CHR ''=''])"
| "base64 [] = []"

text \<open>\<open>createRepo(repoName, isPrivate)\<close>; \<open>githubUsername\<close> is the service's field.\<close>

record repo_result =
  fullName :: string
  defaultBranch :: string
  alreadyExists :: bool

definition createRepo :: "'r platform \<Rightarrow> string \<Rightarrow> string \<Rightarrow> bool \<Rightarrow> ('r, repo_result) io" where
  "createRepo api githubUsername repoName isPrivate w =
     (case send (PostUserRepos repoName ''Automated Selenium test execution repository'' isPrivate True)
             (post_user_repos api repoName ''Automated Selenium test execution repository'' isPrivate True) w of
        (Inr d, w') \<Rightarrow>
          (Inr \<lparr>fullName = full_name d, defaultBranch = default_branch d, alreadyExists = False\<rparr>, w')
      | (Inl error, w') \<Rightarrow>
          (if map_option http_status (error_response error) = Some 422
           then (Inr \<lparr>fullName = githubUsername @ ''/'' @ repoName, defaultBranch = ''main'',
                       alreadyExists = True\<rparr>, w')
           else (Inl (handleError error ''Failed to create repository''), w')))"

text \<open>
  \<open>commitFiles(owner, repo, files, message, branch)\<close>. In step 3 \<open>files.map\<close> starts
  one request per file, in the order of the list, before any answer is awaited, so
  every blob request is sent even when one of them fails; \<open>Promise.all\<close> then yields
  the entries in the order of the files, or rejects (the model takes the error of
  the first failing file).
\<close>

record file_entry =
  path :: string
  content :: string

fun createBlobs :: "'r platform \<Rightarrow> string \<Rightarrow> string \<Rightarrow> file_entry list \<Rightarrow> ('r, tree_entry list) io" where
  "createBlobs api owner repo [] w = (Inr [], w)"
| "createBlobs api owner repo (file # files) w =
     (case send (PostBlob owner repo (base64 (content file)) ''base64'')
             (post_blob api owner repo (base64 (content file)) ''base64'') w of
        (res, w') \<Rightarrow>
          (case createBlobs api owner repo files w' of
             (rest, w'') \<Rightarrow>
               (case res of
                  Inl error \<Rightarrow> (Inl error, w'')
                | Inr sha \<Rightarrow>
                    (case rest of
                       Inl error \<Rightarrow> (Inl error, w'')
                     | Inr entries \<Rightarrow>
                         (Inr (\<lparr>entry_path = path file, entry_mode = ''100644'',
                                 entry_type = ''blob'', entry_sha = sha\<rparr> # entries), w'')))))"

record commit_result =
  commitSha :: string

definition commitFiles :: "'r platform \<Rightarrow> string \<Rightarrow> string \<Rightarrow> file_entry list \<Rightarrow> string \<Rightarrow> string
    \<Rightarrow> ('r, commit_result) io" where
  "commitFiles api owner repo files msg branch =
     rethrow (\<lambda>error. handleError error ''Failed to commit files'')
       (await (send (GetRef owner repo branch) (get_ref api owner repo branch)) (\<lambda>latestCommitSha.
        await (send (GetCommit owner repo latestCommitSha) (get_commit api owner repo latestCommitSha)) (\<lambda>baseTreeSha.
        await (createBlobs api owner repo files) (\<lambda>blobs.
        await (send (PostTree owner repo baseTreeSha blobs) (post_tree api owner repo baseTreeSha blobs)) (\<lambda>treeSha.
        await (send (PostCommit owner repo msg treeSha [latestCommitSha])
                 (post_commit api owner repo msg treeSha [latestCommitSha])) (\<lambda>newCommitSha.
        await (send (PatchRef owner repo branch newCommitSha False)
                 (patch_ref api owner repo branch newCommitSha False)) (\<lambda>_.
        return \<lparr>commitSha = newCommitSha\<rparr>)))))))"

text \<open>
  Steps 1 to 5 of \<open>commitFiles\<close> on their own (the body up to the reference update,
  without the \<open>catch\<close>), to speak of the state in which step 6 starts. They yield the
  head resolved in step 1 and the commit created in step 5.
\<close>

definition stageCommit :: "'r platform \<Rightarrow> string \<Rightarrow> string \<Rightarrow> file_entry list \<Rightarrow> string \<Rightarrow> string
    \<Rightarrow> ('r, string \<times> string) io" where
  "stageCommit api owner repo files msg branch =
     await (send (GetRef owner repo branch) (get_ref api owner repo branch)) (\<lambda>latestCommitSha.
     await (send (GetCommit owner repo latestCommitSha) (get_commit api owner repo latestCommitSha)) (\<lambda>baseTreeSha.
     await (createBlobs api owner repo files) (\<lambda>blobs.
     await (send (PostTree owner repo baseTreeSha blobs) (post_tree api owner repo baseTreeSha blobs)) (\<lambda>treeSha.
     await (send (PostCommit owner repo msg treeSha [latestCommitSha])
              (post_commit api owner repo msg treeSha [latestCommitSha])) (\<lambda>newCommitSha.
     return (latestCommitSha, newCommitSha))))))"

text \<open>
  The blob requests of step 3 and the tree entries built from their answers, as lists
  (what \<open>createBlobs\<close> sends and yields), to state what a commit consists of.
\<close>

definition blob_requests :: "string \<Rightarrow> string \<Rightarrow> file_entry list \<Rightarrow> event list" where
  "blob_requests own rep files =
     map (\<lambda>f. Sent (PostBlob own rep (base64 (content f)) ''base64'')) files"

definition blob_entries :: "file_entry list \<Rightarrow> string list \<Rightarrow> tree_entry list" where
  "blob_entries files shas =
     map (\<lambda>(f, sha). \<lparr>entry_path = path f, entry_mode = ''100644'', entry_type = ''blob'',
                         entry_sha = sha\<rparr>) (zip files shas)"

text \<open>
  What the platform alone answers to the blob requests of step 3: the answer to
  \<open>post_blob\<close> for the base64 text of each file, in the order of the files, each on
  the state that the previous request left, and the state after the last one.
\<close>

fun blob_answers :: "'r platform \<Rightarrow> string \<Rightarrow> string \<Rightarrow> file_entry list \<Rightarrow> 'r
    \<Rightarrow> (js_error + string) list \<times> 'r" where
  "blob_answers api own rep [] r = ([], r)"
| "blob_answers api own rep (f # fs) r =
     (case post_blob api own rep (base64 (content f)) ''base64'' r of
        (answer, r') \<Rightarrow>
          (case blob_answers api own rep fs r' of
             (answers, r'') \<Rightarrow> (answer # answers, r'')))"

text \<open>\<open>triggerWorkflow(owner, repo, workflowFileName, inputs, ref)\<close>.\<close>

definition triggerWorkflow :: "'r platform \<Rightarrow> string \<Rightarrow> string \<Rightarrow> string \<Rightarrow> (string \<times> string) list
    \<Rightarrow> string \<Rightarrow> ('r, string) io" where
  "triggerWorkflow api owner repo workflowFileName inputs ref =
     rethrow (\<lambda>error. handleError error ''Failed to trigger workflow'')
       (await (sleep 2000) (\<lambda>_.
        await (send (PostDispatch owner repo workflowFileName ref inputs)
                 (post_dispatch api owner repo workflowFileName ref inputs)) (\<lambda>_.
        await (sleep 3000) (\<lambda>_.
        return ''Workflow triggered successfully''))))"

text \<open>\<open>getWorkflowRuns(owner, repo, limit)\<close> and \<open>getWorkflowRunById(owner, repo, runId)\<close>.\<close>

record run_summary =
  run_id :: nat
  run_name :: string
  run_status :: string
  run_conclusion :: "string option"
  run_createdAt :: string
  run_updatedAt :: string
  run_htmlUrl :: string
  run_runNumber :: nat

record run_details = run_summary +
  run_event :: string
  run_headBranch :: string

definition summary :: "gh_run \<Rightarrow> run_summary" where
  "summary run =
     \<lparr>run_id = gh_id run, run_name = gh_name run, run_status = gh_status run,
      run_conclusion = gh_conclusion run, run_createdAt = gh_created_at run,
      run_updatedAt = gh_updated_at run, run_htmlUrl = gh_html_url run,
      run_runNumber = gh_run_number run\<rparr>"

record runs_result =
  runs :: "run_summary list"
  totalCount :: nat

definition getWorkflowRuns :: "'r platform \<Rightarrow> string \<Rightarrow> string \<Rightarrow> nat \<Rightarrow> ('r, runs_result) io" where
  "getWorkflowRuns api owner repo limit =
     rethrow (\<lambda>error. handleError error ''Failed to fetch workflow runs'')
       (await (send (GetRuns owner repo limit) (get_runs api owner repo limit)) (\<lambda>(workflow_runs, total_count).
        return \<lparr>runs = map summary workflow_runs, totalCount = total_count\<rparr>))"

definition getWorkflowRunById :: "'r platform \<Rightarrow> string \<Rightarrow> string \<Rightarrow> nat option \<Rightarrow> ('r, run_details) io" where
  "getWorkflowRunById api owner repo runId =
     rethrow (\<lambda>error. handleError error ''Failed to fetch workflow run'')
       (await (send (GetRun owner repo runId) (get_run api owner repo runId)) (\<lambda>run.
        return \<lparr>run_id = gh_id run, run_name = gh_name run, run_status = gh_status run,
                run_conclusion = gh_conclusion run, run_createdAt = gh_created_at run,
                run_updatedAt = gh_updated_at run, run_htmlUrl = gh_html_url run,
                run_runNumber = gh_run_number run, run_event = gh_event run,
                run_headBranch = gh_head_branch run\<rparr>))"

text \<open>
  \<open>getWorkflowLogs(owner, repo, runId)\<close>: the request for the log archive resolves
  only on status 302; its failure is caught and leaves the link \<open>null\<close>.
\<close>

record step_summary =
  step_name :: string
  step_status :: string
  step_conclusion :: "string option"
  step_number :: nat

record job_summary =
  job_id :: nat
  job_name :: string
  job_status :: string
  job_conclusion :: "string option"
  job_startedAt :: "string option"
  job_completedAt :: "string option"
  job_steps :: "step_summary list"

definition step_of :: "gh_step \<Rightarrow> step_summary" where
  "step_of step =
     \<lparr>step_name = gh_step_name step, step_status = gh_step_status step,
      step_conclusion = gh_step_conclusion step, step_number = gh_step_number step\<rparr>"

definition job_of :: "gh_job \<Rightarrow> job_summary" where
  "job_of job =
     \<lparr>job_id = gh_job_id job, job_name = gh_job_name job, job_status = gh_job_status job,
      job_conclusion = gh_job_conclusion job, job_startedAt = gh_started_at job,
      job_completedAt = gh_completed_at job, job_steps = map step_of (gh_steps job)\<rparr>"

record logs_result =
  jobs :: "job_summary list"
  logDownloadUrl :: "string option"

definition getWorkflowLogs :: "'r platform \<Rightarrow> string \<Rightarrow> string \<Rightarrow> nat option \<Rightarrow> ('r, logs_result) io" where
  "getWorkflowLogs api owner repo runId =
     rethrow (\<lambda>error. handleError error ''Failed to fetch workflow logs'')
       (await (send (GetJobs owner repo runId) (get_jobs api owner repo runId)) (\<lambda>js w.
          (case send (GetRunLogs owner repo runId) (get_run_logs api owner repo runId) w of
             (Inr location, w') \<Rightarrow> (Inr \<lparr>jobs = map job_of js, logDownloadUrl = location\<rparr>, w')
           | (Inl error, w') \<Rightarrow> (Inr \<lparr>jobs = map job_of js, logDownloadUrl = None\<rparr>, w'))))"

section \<open>TestRunController\<close>

text \<open>
  The registry \<open>activeRuns\<close> is a map from run ids to the stored metadata. A field the
  handler has not set yet (\<open>conclusion\<close> and \<open>updatedAt\<close> before the first refresh,
  \<open>workflowRunId\<close> when no run was listed) is \<open>None\<close>, as is a \<open>null\<close> conclusion.
\<close>

record run_metadata =
  runId :: string
  owner :: string
  repo :: string
  repoFullName :: string
  workflowRunId :: "nat option"
  testName :: string
  createdAt :: string
  status :: string
  conclusion :: "string option"
  updatedAt :: "string option"

record 'r app =
  activeRuns :: "string \<rightharpoonup> run_metadata"
  net :: "'r net"

text \<open>A call of a service method from a handler.\<close>

definition service :: "('r, 'a) io \<Rightarrow> 'r app \<Rightarrow> (js_error + 'a) \<times> 'r app" where
  "service m s = (case m (net s) of (res, w') \<Rightarrow> (res, s\<lparr>net := w'\<rparr>))"

text \<open>What a handler answers: \<open>res.status(code).json(body)\<close>.\<close>

datatype json_body =
    Failure string
  | Created (created_runId: string) (created_workflowRunId: "nat option") (created_repository: string)
      (created_repoUrl: string) (created_workflowUrl: "string option") (created_status: string)
      (created_message: string)
  | Status string "nat option" string "string option" string string "string option"
  | Logs string "nat option" "job_summary list" "string option" string
  | Success string

record reply =
  statusCode :: nat
  json :: json_body

text \<open>
  The \<open>catch\<close> block of every handler: status 500 with the error's message, or the
  handler's default text when the message is empty.
\<close>

definition catch500 :: "string \<Rightarrow> ('s \<Rightarrow> (js_error + reply) \<times> 's) \<Rightarrow> 's \<Rightarrow> reply \<times> 's" where
  "catch500 dflt m s =
     (case m s of
        (Inr r, s') \<Rightarrow> (r, s')
      | (Inl error, s') \<Rightarrow>
          (\<lparr>statusCode = 500, json = Failure (or_else (Some (error_message error)) dflt)\<rparr>, s'))"

text \<open>\<open>`${n}`\<close> for a non-negative integer: its decimal digits.\<close>

fun decimal :: "nat \<Rightarrow> string" where
  "decimal n =
     (if n < 10 then [''0123456789'' ! n]
      else decimal (n div 10) @ [''0123456789'' ! (n mod 10)])"

declare decimal.simps [simp del]

text \<open>
  \<open>fullName.split('/')\<close> and the destructuring \<open>[owner, repo]\<close>. When there is no
  second part, \<open>repo\<close> is \<open>undefined\<close>; it is used only inside URL templates, where it
  reads \<open>undefined\<close>.
\<close>

fun split :: "char \<Rightarrow> string \<Rightarrow> string list" where
  "split c [] = [[]]"
| "split c (x # xs) =
     (if x = c then [] # split c xs
      else (case split c xs of p # ps \<Rightarrow> (x # p) # ps | [] \<Rightarrow> [[x]]))"

definition owner_of :: "string \<Rightarrow> string" where
  "owner_of full = (case split CHR ''/'' full of p # _ \<Rightarrow> p | [] \<Rightarrow> [])"

definition repo_of :: "string \<Rightarrow> string" where
  "repo_of full = (case split CHR ''/'' full of _ # q # _ \<Rightarrow> q | _ \<Rightarrow> ''undefined'')"

text \<open>The body of a create request: \<open>{ testScript, testName, repoName }\<close>.\<close>

record create_body =
  testScript :: js_value
  req_testName :: "string option"
  req_repoName :: "string option"

fun string_of :: "js_value \<Rightarrow> string" where
  "string_of (String s) = s"
| "string_of _ = []"

text \<open>
  \<open>createTestRun(req, res)\<close>. Its inputs from outside the program are the platform,
  the service's \<open>githubUsername\<close>, what \<open>fs.readFileSync\<close> gives for the workflow
  template (the text, or the error it throws), the reading \<open>timestamp\<close> of
  \<open>Date.now()\<close> and the text \<open>nowIso\<close> of \<open>new Date().toISOString()\<close>.
\<close>

definition createTestRun :: "'r platform \<Rightarrow> string \<Rightarrow> js_error + string \<Rightarrow> nat \<Rightarrow> string \<Rightarrow> create_body
    \<Rightarrow> 'r app \<Rightarrow> reply \<times> 'r app" where
  "createTestRun api githubUsername template timestamp nowIso body =
     catch500 ''Failed to create test run''
       (if \<not> truthy (testScript body) \<or> typeof (testScript body) \<noteq> ''string''
        then return \<lparr>statusCode = 400, json = Failure ''testScript is required and must be a string''\<rparr>
        else
          (let rid = ''test-run-'' @ decimal timestamp;
               tname = (case req_testName body of None \<Rightarrow> ''selenium-test'' | Some n \<Rightarrow> n);
               finalRepoName = or_else (req_repoName body) (''selenium-test-'' @ decimal timestamp)
           in
           await (service (createRepo api githubUsername finalRepoName True)) (\<lambda>repoResult.
           let own = owner_of (fullName repoResult); rep = repo_of (fullName repoResult) in
           await (\<lambda>s. (template, s)) (\<lambda>workflowContent.
           let files = [\<lparr>path = ''test_script.py'', content = string_of (testScript body)\<rparr>,
                        \<lparr>path = ''.github/workflows/selenium-test.yml'', content = workflowContent\<rparr>] in
           await (service (commitFiles api own rep files
                    (''Add Selenium test script for run '' @ rid) ''main'')) (\<lambda>_.
           await (service (triggerWorkflow api own rep ''selenium-test.yml''
                    [(''test_id'', rid)] ''main'')) (\<lambda>_.
           await (service (getWorkflowRuns api own rep 1)) (\<lambda>runsResult.
           let latestRun = (case runs runsResult of [] \<Rightarrow> None | r # _ \<Rightarrow> Some r);
               runMetadata = \<lparr>runId = rid, owner = own, repo = rep,
                               repoFullName = fullName repoResult,
                               workflowRunId = map_option run_id latestRun,
                               testName = tname, createdAt = nowIso, status = ''queued'',
                               conclusion = None, updatedAt = None\<rparr>
           in (\<lambda>s.
             (Inr \<lparr>statusCode = 201,
                   json = Created rid (map_option run_id latestRun) (fullName repoResult)
                            (''https://github.com/'' @ fullName repoResult)
                            (map_option run_htmlUrl latestRun) ''queued''
                            ''Test run created and workflow triggered successfully''\<rparr>,
              s\<lparr>activeRuns := (activeRuns s)(rid \<mapsto> runMetadata)\<rparr>)))))))))"

text \<open>
  Steps 1 to 5 of \<open>createTestRun\<close> on their own (the body from the creation of the
  repository to the dispatch, for a request that passed the validation), to speak of
  the state in which step 6 starts. They yield the result of \<open>createRepo\<close>.
\<close>

definition dispatchRun :: "'r platform \<Rightarrow> string \<Rightarrow> js_error + string \<Rightarrow> nat \<Rightarrow> create_body
    \<Rightarrow> 'r app \<Rightarrow> (js_error + repo_result) \<times> 'r app" where
  "dispatchRun api githubUsername template timestamp body =
     (let rid = ''test-run-'' @ decimal timestamp;
          finalRepoName = or_else (req_repoName body) (''selenium-test-'' @ decimal timestamp)
      in
      await (service (createRepo api githubUsername finalRepoName True)) (\<lambda>repoResult.
      let own = owner_of (fullName repoResult); rep = repo_of (fullName repoResult) in
      await (\<lambda>s. (template, s)) (\<lambda>workflowContent.
      let files = [\<lparr>path = ''test_script.py'', content = string_of (testScript body)\<rparr>,
                   \<lparr>path = ''.github/workflows/selenium-test.yml'', content = workflowContent\<rparr>] in
      await (service (commitFiles api own rep files
               (''Add Selenium test script for run '' @ rid) ''main'')) (\<lambda>_.
      await (service (triggerWorkflow api own rep ''selenium-test.yml''
               [(''test_id'', rid)] ''main'')) (\<lambda>_.
      return repoResult)))))"

text \<open>\<open>runs[0]\<close> of a run list: absent when the list is empty.\<close>

definition first_run :: "gh_run list \<Rightarrow> gh_run option" where
  "first_run listing = (case listing of [] \<Rightarrow> None | r # _ \<Rightarrow> Some r)"

text \<open>\<open>getStatus(req, res)\<close>, with \<open>rid = req.params.runId\<close>.\<close>

definition getStatus :: "'r platform \<Rightarrow> string \<Rightarrow> string \<Rightarrow> 'r app \<Rightarrow> reply \<times> 'r app" where
  "getStatus api nowIso rid =
     catch500 ''Failed to fetch test run status'' (\<lambda>s.
       (case activeRuns s rid of
          None \<Rightarrow> (Inr \<lparr>statusCode = 404, json = Failure ''Test run not found''\<rparr>, s)
        | Some metadata \<Rightarrow>
            await (service (getWorkflowRunById api (owner metadata) (repo metadata)
                     (workflowRunId metadata))) (\<lambda>run s'.
              (Inr \<lparr>statusCode = 200,
                    json = Status rid (workflowRunId metadata) (run_status run) (run_conclusion run)
                             (run_htmlUrl run) (createdAt metadata) (Some nowIso)\<rparr>,
               s'\<lparr>activeRuns := (activeRuns s')(rid \<mapsto>
                     metadata\<lparr>status := run_status run, conclusion := run_conclusion run,
                              updatedAt := Some nowIso\<rparr>)\<rparr>)) s))"

text \<open>\<open>`${id}`\<close> for a workflow run id that may be \<open>undefined\<close>.\<close>

definition id_text :: "nat option \<Rightarrow> string" where
  "id_text i = (case i of None \<Rightarrow> ''undefined'' | Some n \<Rightarrow> decimal n)"

text \<open>\<open>getLogs(req, res)\<close>.\<close>

definition getLogs :: "'r platform \<Rightarrow> string \<Rightarrow> 'r app \<Rightarrow> reply \<times> 'r app" where
  "getLogs api rid =
     catch500 ''Failed to fetch test run logs'' (\<lambda>s.
       (case activeRuns s rid of
          None \<Rightarrow> (Inr \<lparr>statusCode = 404, json = Failure ''Test run not found''\<rparr>, s)
        | Some metadata \<Rightarrow>
            await (service (getWorkflowLogs api (owner metadata) (repo metadata)
                     (workflowRunId metadata))) (\<lambda>logsResult.
              return \<lparr>statusCode = 200,
                      json = Logs rid (workflowRunId metadata) (jobs logsResult)
                               (logDownloadUrl logsResult)
                               (''https://github.com/'' @ owner metadata @ ''/'' @ repo metadata
                                @ ''/actions/runs/'' @ id_text (workflowRunId metadata))\<rparr>) s))"

text \<open>\<open>deleteRun(req, res)\<close>.\<close>

definition deleteRun :: "'r platform \<Rightarrow> string \<Rightarrow> 'r app \<Rightarrow> reply \<times> 'r app" where
  "deleteRun api rid =
     catch500 ''Failed to delete test run'' (\<lambda>s.
       (case activeRuns s rid of
          None \<Rightarrow> (Inr \<lparr>statusCode = 404, json = Failure ''Test run not found''\<rparr>, s)
        | Some metadata \<Rightarrow>
            await (service (deleteRepo api (owner metadata) (repo metadata))) (\<lambda>_ s'.
              (Inr \<lparr>statusCode = 200, json = Success ''Test run and repository deleted successfully''\<rparr>,
               s'\<lparr>activeRuns := (activeRuns s')(rid := None)\<rparr>)) s))"

section \<open>A small platform to run the service against\<close>

text \<open>
  A platform account that holds at most one repository with one branch \<open>main\<close>.
  It keeps the commit graph, hands out object ids from a stock, refuses a ref update
  that is not a fast-forward unless it is forced, and schedules a run for every
  dispatch at the commit the branch then points to. Three switches make it behave
  as a real platform may: \<open>prompt\<close> (whether a dispatched run is listed at once, or
  only when the next dispatch arrives),
  \<open>rival\<close> (a commit another writer pushes while a client reads the head commit)
  and \<open>feed\<close> (the states it reports for a run at successive queries).
\<close>

record host =
  login :: string
  hosted :: "string option"
  head :: string
  parent :: "(string \<times> string) list"
  tree_of :: "(string \<times> string) list"
  stock :: "string list"
  listed :: "gh_run list"
  pending :: "gh_run list"
  prompt :: bool
  next_run :: nat
  rival :: "string option"
  feed :: "(string \<times> string option) list"

definition refused :: "nat \<Rightarrow> string \<Rightarrow> string \<Rightarrow> js_error" where
  "refused code msg reason =
     JsError ''AxiosError'' (''Request failed with status code '' @ decimal code)
       (Some (HttpResponse code (Some msg) reason))"

definition not_found :: js_error where
  "not_found = refused 404 ''Not Found'' ''Not Found''"

definition holds :: "host \<Rightarrow> string \<Rightarrow> string \<Rightarrow> bool" where
  "holds h own rep = (hosted h = Some (own @ ''/'' @ rep))"

fun ancestor :: "(string \<times> string) list \<Rightarrow> nat \<Rightarrow> string \<Rightarrow> string \<Rightarrow> bool" where
  "ancestor g 0 old new = (old = new)"
| "ancestor g (Suc k) old new =
     (old = new \<or> (case map_of g new of None \<Rightarrow> False | Some p \<Rightarrow> ancestor g k old p))"

definition take_id :: "host \<Rightarrow> (string \<Rightarrow> host \<Rightarrow> host) \<Rightarrow> (js_error + string) \<times> host" where
  "take_id h store =
     (case stock h of
        [] \<Rightarrow> (Inl (refused 500 ''Server Error'' ''Internal Server Error''), h)
      | x # xs \<Rightarrow> (Inr x, store x (h\<lparr>stock := xs\<rparr>)))"

definition host_post_user_repos :: "string \<Rightarrow> string \<Rightarrow> bool \<Rightarrow> bool \<Rightarrow> host \<Rightarrow> (js_error + gh_repo) \<times> host" where
  "host_post_user_repos nm descr priv auto_init h =
     (case hosted h of
        Some full \<Rightarrow>
          (if full = login h @ ''/'' @ nm
           then (Inl (refused 422 ''Repository creation failed.'' ''Unprocessable Entity''), h)
           else (Inl (refused 403 ''Repository quota reached'' ''Forbidden''), h))
      | None \<Rightarrow>
          (case stock h of
             c # t # xs \<Rightarrow>
               (Inr \<lparr>full_name = login h @ ''/'' @ nm, default_branch = ''main''\<rparr>,
                h\<lparr>hosted := Some (login h @ ''/'' @ nm), head := c, parent := [],
                  tree_of := [(c, t)], stock := xs, listed := [], pending := []\<rparr>)
           | _ \<Rightarrow> (Inl (refused 500 ''Server Error'' ''Internal Server Error''), h)))"

definition host_get_ref :: "string \<Rightarrow> string \<Rightarrow> string \<Rightarrow> host \<Rightarrow> (js_error + string) \<times> host" where
  "host_get_ref own rep branch h =
     (if holds h own rep \<and> branch = ''main'' then (Inr (head h), h) else (Inl not_found, h))"

definition host_get_commit :: "string \<Rightarrow> string \<Rightarrow> string \<Rightarrow> host \<Rightarrow> (js_error + string) \<times> host" where
  "host_get_commit own rep sha h =
     (if holds h own rep
      then (case map_of (tree_of h) sha of
              None \<Rightarrow> (Inl not_found, h)
            | Some t \<Rightarrow>
                (Inr t,
                 (case rival h of
                    None \<Rightarrow> h
                  | Some c \<Rightarrow> h\<lparr>head := c, parent := (c, head h) # parent h,
                                tree_of := (c, t) # tree_of h, rival := None\<rparr>)))
      else (Inl not_found, h))"

definition host_post_blob :: "string \<Rightarrow> string \<Rightarrow> string \<Rightarrow> string \<Rightarrow> host \<Rightarrow> (js_error + string) \<times> host" where
  "host_post_blob own rep cont enc h =
     (if holds h own rep then take_id h (\<lambda>x h'. h') else (Inl not_found, h))"

definition host_post_tree :: "string \<Rightarrow> string \<Rightarrow> string \<Rightarrow> tree_entry list \<Rightarrow> host \<Rightarrow> (js_error + string) \<times> host" where
  "host_post_tree own rep base entries h =
     (if holds h own rep then take_id h (\<lambda>x h'. h') else (Inl not_found, h))"

definition host_post_commit :: "string \<Rightarrow> string \<Rightarrow> string \<Rightarrow> string \<Rightarrow> string list \<Rightarrow> host
    \<Rightarrow> (js_error + string) \<times> host" where
  "host_post_commit own rep msg tree parents h =
     (if holds h own rep
      then take_id h (\<lambda>x h'. h'\<lparr>parent := map (\<lambda>p. (x, p)) (take 1 parents) @ parent h',
                                  tree_of := (x, tree) # tree_of h'\<rparr>)
      else (Inl not_found, h))"

definition host_patch_ref :: "string \<Rightarrow> string \<Rightarrow> string \<Rightarrow> string \<Rightarrow> bool \<Rightarrow> host \<Rightarrow> (js_error + unit) \<times> host" where
  "host_patch_ref own rep branch sha force h =
     (if holds h own rep \<and> branch = ''main''
      then (if force \<or> ancestor (parent h) (length (parent h)) (head h) sha
            then (Inr (), h\<lparr>head := sha\<rparr>)
            else (Inl (refused 422 ''Update is not a fast forward'' ''Unprocessable Entity''), h))
      else (Inl not_found, h))"

text \<open>The record the platform makes for run number \<open>n\<close>, dispatched at commit \<open>sha\<close>.\<close>

definition new_run :: "string \<Rightarrow> string \<Rightarrow> string \<Rightarrow> string \<Rightarrow> nat \<Rightarrow> string \<Rightarrow> gh_run" where
  "new_run own rep wfile ref n sha =
     \<lparr>gh_id = n, gh_name = wfile, gh_status = ''queued'', gh_conclusion = None,
      gh_created_at = ''2025-11-24T10:30:00Z'', gh_updated_at = ''2025-11-24T10:30:00Z'',
      gh_html_url = ''https://github.com/'' @ own @ ''/'' @ rep @ ''/actions/runs/'' @ decimal n,
      gh_run_number = n, gh_event = ''workflow_dispatch'', gh_head_branch = ref,
      gh_head_sha = sha\<rparr>"

definition host_post_dispatch :: "string \<Rightarrow> string \<Rightarrow> string \<Rightarrow> string \<Rightarrow> (string \<times> string) list \<Rightarrow> host
    \<Rightarrow> (js_error + unit) \<times> host" where
  "host_post_dispatch own rep wfile ref inputs h =
     (if holds h own rep
      then (let run = new_run own rep wfile ref (next_run h) (head h)
            in (Inr (),
                if prompt h then h\<lparr>listed := run # listed h, next_run := Suc (next_run h)\<rparr>
                else h\<lparr>listed := pending h @ listed h, pending := [run],
                       next_run := Suc (next_run h)\<rparr>))
      else (Inl not_found, h))"

definition host_get_runs :: "string \<Rightarrow> string \<Rightarrow> nat \<Rightarrow> host \<Rightarrow> (js_error + gh_run list \<times> nat) \<times> host" where
  "host_get_runs own rep n h =
     (if holds h own rep then (Inr (take n (listed h), length (listed h)), h)
      else (Inl not_found, h))"

definition host_get_run :: "string \<Rightarrow> string \<Rightarrow> nat option \<Rightarrow> host \<Rightarrow> (js_error + gh_run) \<times> host" where
  "host_get_run own rep i h =
     (if holds h own rep
      then (case i of
              None \<Rightarrow> (Inl not_found, h)
            | Some n \<Rightarrow>
                (case find (\<lambda>r. gh_id r = n) (listed h @ pending h) of
                   None \<Rightarrow> (Inl not_found, h)
                 | Some r \<Rightarrow>
                     (case feed h of
                        [] \<Rightarrow> (Inr r, h)
                      | (st, c) # rest \<Rightarrow>
                          (Inr (r\<lparr>gh_status := st, gh_conclusion := c\<rparr>), h\<lparr>feed := rest\<rparr>))))
      else (Inl not_found, h))"

definition host_get_jobs :: "string \<Rightarrow> string \<Rightarrow> nat option \<Rightarrow> host \<Rightarrow> (js_error + gh_job list) \<times> host" where
  "host_get_jobs own rep i h =
     (if holds h own rep \<and> i \<in> Some ` gh_id ` set (listed h @ pending h)
      then (Inr [], h) else (Inl not_found, h))"

definition host_get_run_logs :: "string \<Rightarrow> string \<Rightarrow> nat option \<Rightarrow> host \<Rightarrow> (js_error + string option) \<times> host" where
  "host_get_run_logs own rep i h = (Inl not_found, h)"

definition host_delete_repo :: "string \<Rightarrow> string \<Rightarrow> host \<Rightarrow> (js_error + unit) \<times> host" where
  "host_delete_repo own rep h =
     (if holds h own rep then (Inr (), h\<lparr>hosted := None, listed := [], pending := []\<rparr>)
      else (Inl not_found, h))"

definition host_api :: "host platform" where
  "host_api =
     \<lparr>post_user_repos = host_post_user_repos, get_ref = host_get_ref,
      get_commit = host_get_commit, post_blob = host_post_blob, post_tree = host_post_tree,
      post_commit = host_post_commit, patch_ref = host_patch_ref,
      post_dispatch = host_post_dispatch, get_runs = host_get_runs, get_run = host_get_run,
      get_jobs = host_get_jobs, get_run_logs = host_get_run_logs,
      delete_repo = host_delete_repo\<rparr>"

text \<open>
  An account \<open>octo\<close> with no repository yet, and the service about to start. A run
  on it will be reported as completed with success at the first query and, having
  been re-run on the platform, as queued at the second.
\<close>

definition fresh_host :: host where
  "fresh_host =
     \<lparr>login = ''octo'', hosted = None, head = [], parent = [], tree_of = [],
      stock = [''c0'', ''t0'', ''b1'', ''b2'', ''t1'', ''c1'', ''b3'', ''b4'', ''t2'', ''c2''],
      listed = [], pending = [], prompt = True, next_run = 1, rival = None,
      feed = [(''completed'', Some ''success''), (''queued'', None)]\<rparr>"

text \<open>The same account once it holds the repository \<open>octo/demo\<close>.\<close>

definition demo_host :: host where
  "demo_host =
     \<lparr>login = ''octo'', hosted = Some ''octo/demo'', head = ''c0'', parent = [],
      tree_of = [(''c0'', ''t0'')],
      stock = [''b1'', ''b2'', ''t1'', ''c1'', ''b3'', ''b4'', ''t2'', ''c2''],
      listed = [], pending = [], prompt = True, next_run = 1, rival = None,
      feed = [(''completed'', Some ''success''), (''queued'', None)]\<rparr>"

definition boot :: "host \<Rightarrow> host app" where
  "boot h = \<lparr>activeRuns = Map.empty, net = \<lparr>remote = h, trace = []\<rparr>\<rparr>"

subsection \<open>Executions on the small platform\<close>

text \<open>
  Two requests for the same repository, on the platform as it is, on one that lists a
  dispatched run late, and on one where another writer pushes to the branch in the
  middle of a commit.
\<close>

definition demo_body :: create_body where
  "demo_body = \<lparr>testScript = String ''print(1)'', req_testName = None, req_repoName = Some ''demo''\<rparr>"

definition other_body :: create_body where
  "other_body =
     \<lparr>testScript = String ''print(2)'', req_testName = Some ''second'', req_repoName = Some ''demo''\<rparr>"

definition demo_files :: "file_entry list" where
  "demo_files =
     [\<lparr>path = ''test_script.py'', content = ''print(1)''\<rparr>,
      \<lparr>path = ''.github/workflows/selenium-test.yml'', content = ''on: workflow_dispatch''\<rparr>]"

definition slow_host :: host where
  "slow_host = fresh_host\<lparr>prompt := False\<rparr>"

definition contested_host :: host where
  "contested_host = demo_host\<lparr>rival := Some ''x1''\<rparr>"

text \<open>
  What the service does to the platform for the first request, and what it registers
  for it (with the workflow run id it found).
\<close>

definition first_requests :: "event list" where
  "first_requests =
     [Sent (PostUserRepos ''demo'' ''Automated Selenium test execution repository'' True True),
      Sent (GetRef ''octo'' ''demo'' ''main''),
      Sent (GetCommit ''octo'' ''demo'' ''c0''),
      Sent (PostBlob ''octo'' ''demo'' ''cHJpbnQoMSk='' ''base64''),
      Sent (PostBlob ''octo'' ''demo'' ''b246IHdvcmtmbG93X2Rpc3BhdGNo'' ''base64''),
      Sent (PostTree ''octo'' ''demo'' ''t0''
              [\<lparr>entry_path = ''test_script.py'', entry_mode = ''100644'',
                entry_type = ''blob'', entry_sha = ''b1''\<rparr>,
               \<lparr>entry_path = ''.github/workflows/selenium-test.yml'', entry_mode = ''100644'',
                entry_type = ''blob'', entry_sha = ''b2''\<rparr>]),
      Sent (PostCommit ''octo'' ''demo'' ''Add Selenium test script for run test-run-1000''
              ''t1'' [''c0'']),
      Sent (PatchRef ''octo'' ''demo'' ''main'' ''c1'' False),
      Slept 2000,
      Sent (PostDispatch ''octo'' ''demo'' ''selenium-test.yml'' ''main''
              [(''test_id'', ''test-run-1000'')]),
      Slept 3000,
      Sent (GetRuns ''octo'' ''demo'' 1)]"

definition first_metadata :: "nat option \<Rightarrow> run_metadata" where
  "first_metadata wid =
     \<lparr>runId = ''test-run-1000'', owner = ''octo'', repo = ''demo'', repoFullName = ''octo/demo'',
      workflowRunId = wid, testName = ''selenium-test'', createdAt = ''2025-11-24T10:29:55Z'',
      status = ''queued'', conclusion = None, updatedAt = None\<rparr>"

definition slow_first :: "reply \<times> host app" where
  "slow_first =
     createTestRun host_api ''octo'' (Inr ''on: workflow_dispatch'') 1000 ''2025-11-24T10:29:55Z''
       demo_body (boot slow_host)"

definition slow_second :: "reply \<times> host app" where
  "slow_second =
     createTestRun host_api ''octo'' (Inr ''on: workflow_dispatch'') 2000 ''2025-11-24T10:29:56Z''
       other_body (snd slow_first)"

definition prompt_first :: "reply \<times> host app" where
  "prompt_first =
     createTestRun host_api ''octo'' (Inr ''on: workflow_dispatch'') 1000 ''2025-11-24T10:29:55Z''
       demo_body (boot fresh_host)"

definition same_ms_second :: "reply \<times> host app" where
  "same_ms_second =
     createTestRun host_api ''octo'' (Inr ''on: workflow_dispatch'') 1000 ''2025-11-24T10:29:55Z''
       other_body (snd prompt_first)"

definition refresh1 :: "reply \<times> host app" where
  "refresh1 = getStatus host_api ''2025-11-24T10:35:00Z'' ''test-run-1000'' (snd prompt_first)"

definition refresh2 :: "reply \<times> host app" where
  "refresh2 = getStatus host_api ''2025-11-24T10:40:00Z'' ''test-run-1000'' (snd refresh1)"

text \<open>The run of \<open>prompt_first\<close> once its repository has disappeared from the platform.\<close>

definition orphaned :: "host app" where
  "orphaned =
     (snd prompt_first)\<lparr>net := (net (snd prompt_first))
        \<lparr>remote := (remote (net (snd prompt_first)))\<lparr>hosted := None\<rparr>\<rparr>\<rparr>"

section \<open>Facts about the service\<close>

lemma handleError_name: "error_name (handleError e m) = ''Error''"
  by (simp add: handleError_def Error_def split: option.splits)

lemma handleError_message_nonempty: "error_message (handleError e (c # m)) \<noteq> []"
  by (simp add: handleError_def Error_def split: option.splits)

lemma getWorkflowRuns_eq:
  "getWorkflowRuns api own rep limit w =
     (case get_runs api own rep limit (remote w) of
        (Inl e, r') \<Rightarrow>
          (Inl (handleError e ''Failed to fetch workflow runs''),
           \<lparr>remote = r', trace = trace w @ [Sent (GetRuns own rep limit)]\<rparr>)
      | (Inr (listing, n), r') \<Rightarrow>
          (Inr \<lparr>runs = map summary listing, totalCount = n\<rparr>,
           \<lparr>remote = r', trace = trace w @ [Sent (GetRuns own rep limit)]\<rparr>))"
  by (simp add: getWorkflowRuns_def rethrow_def await_def send_def return_def
      split: prod.splits sum.splits)

lemma getWorkflowRunById_eq:
  "getWorkflowRunById api own rep i w =
     (case get_run api own rep i (remote w) of
        (Inl e, r') \<Rightarrow>
          (Inl (handleError e ''Failed to fetch workflow run''),
           \<lparr>remote = r', trace = trace w @ [Sent (GetRun own rep i)]\<rparr>)
      | (Inr run, r') \<Rightarrow>
          (Inr \<lparr>run_id = gh_id run, run_name = gh_name run, run_status = gh_status run,
                run_conclusion = gh_conclusion run, run_createdAt = gh_created_at run,
                run_updatedAt = gh_updated_at run, run_htmlUrl = gh_html_url run,
                run_runNumber = gh_run_number run, run_event = gh_event run,
                run_headBranch = gh_head_branch run\<rparr>,
           \<lparr>remote = r', trace = trace w @ [Sent (GetRun own rep i)]\<rparr>))"
  by (simp add: getWorkflowRunById_def rethrow_def await_def send_def return_def
      split: prod.splits sum.splits)

lemma triggerWorkflow_eq:
  "triggerWorkflow api own rep wfile inputs ref w =
     (case post_dispatch api own rep wfile ref inputs (remote w) of
        (Inl e, r') \<Rightarrow>
          (Inl (handleError e ''Failed to trigger workflow''),
           \<lparr>remote = r', trace = trace w @ [Slept 2000, Sent (PostDispatch own rep wfile ref inputs)]\<rparr>)
      | (Inr u, r') \<Rightarrow>
          (Inr ''Workflow triggered successfully'',
           \<lparr>remote = r',
            trace = trace w @ [Slept 2000, Sent (PostDispatch own rep wfile ref inputs), Slept 3000]\<rparr>))"
  by (simp add: triggerWorkflow_def rethrow_def await_def send_def return_def sleep_def
      split: prod.splits sum.splits)

lemma triggerWorkflow_trace:
  assumes "triggerWorkflow api own rep wfile inputs ref w = (Inr m, w')"
  shows "trace w' = trace w @ [Slept 2000, Sent (PostDispatch own rep wfile ref inputs), Slept 3000]"
  using assms by (auto simp: triggerWorkflow_eq split: prod.splits sum.splits)

lemma createRepo_trace:
  "createRepo api user nm priv w = (res, w') \<Longrightarrow>
     trace w' = trace w @ [Sent (PostUserRepos nm ''Automated Selenium test execution repository'' priv True)]"
  by (auto simp: createRepo_def send_def split: prod.splits sum.splits if_splits)

text \<open>Step 3 sends one blob request per file, in order, and yields one entry per file.\<close>

lemma createBlobs_trace:
  "createBlobs api own rep files w = (res, w') \<Longrightarrow>
     trace w' = trace w @ blob_requests own rep files"
proof (induction files arbitrary: w res w')
  case Nil
  then show ?case by (auto simp: blob_requests_def)
next
  case (Cons f fs)
  obtain r1 w1 where s1: "send (PostBlob own rep (base64 (content f)) ''base64'')
             (post_blob api own rep (base64 (content f)) ''base64'') w = (r1, w1)"
    by (cases "send (PostBlob own rep (base64 (content f)) ''base64'')
             (post_blob api own rep (base64 (content f)) ''base64'') w")
  obtain r2 w2 where s2: "createBlobs api own rep fs w1 = (r2, w2)"
    by (cases "createBlobs api own rep fs w1")
  from Cons.prems s1 s2 have "w' = w2"
    by (auto split: sum.splits)
  moreover from s1 have "trace w1 = trace w @ [Sent (PostBlob own rep (base64 (content f)) ''base64'')]"
    by (auto simp: send_def split: prod.splits)
  moreover from Cons.IH [OF s2] have "trace w2 = trace w1 @ blob_requests own rep fs" .
  ultimately show ?case
    by (simp add: blob_requests_def)
qed

lemma createBlobs_entries:
  "createBlobs api own rep files w = (Inr entries, w') \<Longrightarrow>
     \<exists>shas. length shas = length files \<and> entries = blob_entries files shas"
proof (induction files arbitrary: w entries w')
  case Nil
  then show ?case by (auto simp: blob_entries_def)
next
  case (Cons f fs)
  obtain r1 w1 where s1: "send (PostBlob own rep (base64 (content f)) ''base64'')
             (post_blob api own rep (base64 (content f)) ''base64'') w = (r1, w1)"
    by (cases "send (PostBlob own rep (base64 (content f)) ''base64'')
             (post_blob api own rep (base64 (content f)) ''base64'') w")
  obtain r2 w2 where s2: "createBlobs api own rep fs w1 = (r2, w2)"
    by (cases "createBlobs api own rep fs w1")
  from Cons.prems s1 s2 obtain sha rest where
    parts: "r1 = Inr sha" "r2 = Inr rest"
      "entries = \<lparr>entry_path = path f, entry_mode = ''100644'', entry_type = ''blob'', entry_sha = sha\<rparr> # rest"
    by (auto split: sum.splits)
  from Cons.IH s2 parts(2) obtain shas where
    "length shas = length fs" "rest = blob_entries fs shas"
    by blast
  then have "length (sha # shas) = length (f # fs) \<and> entries = blob_entries (f # fs) (sha # shas)"
    using parts(3) by (simp add: blob_entries_def)
  then show ?case by blast
qed

text \<open>
  The entries that step 3 yields carry the blob ids that the platform answered, file by
  file; and when the platform answers every blob request with an id, step 3 yields
  exactly these entries.
\<close>

lemma createBlobs_answers:
  "createBlobs api own rep files w = (Inr entries, w') \<Longrightarrow>
     \<exists>shas. blob_answers api own rep files (remote w) = (map Inr shas, remote w')
          \<and> length shas = length files \<and> entries = blob_entries files shas"
proof (induction files arbitrary: w entries w')
  case Nil
  then show ?case by (auto simp: blob_entries_def)
next
  case (Cons f fs)
  obtain a r1 where p: "post_blob api own rep (base64 (content f)) ''base64'' (remote w) = (a, r1)"
    by (cases "post_blob api own rep (base64 (content f)) ''base64'' (remote w)")
  let ?w1 = "\<lparr>remote = r1, trace = trace w @ [Sent (PostBlob own rep (base64 (content f)) ''base64'')]\<rparr>"
  obtain r2 w2 where s2: "createBlobs api own rep fs ?w1 = (r2, w2)"
    by (cases "createBlobs api own rep fs ?w1")
  from Cons.prems p s2 obtain sha rest where
    parts: "a = Inr sha" "r2 = Inr rest" "w' = w2"
      "entries = \<lparr>entry_path = path f, entry_mode = ''100644'', entry_type = ''blob'', entry_sha = sha\<rparr> # rest"
    by (auto simp: send_def split: sum.splits)
  from Cons.IH [OF s2 [unfolded parts(2)]] obtain shas where
    ih: "blob_answers api own rep fs r1 = (map Inr shas, remote w2)"
      "length shas = length fs" "rest = blob_entries fs shas"
    by auto
  from p parts ih have "blob_answers api own rep (f # fs) (remote w) = (map Inr (sha # shas), remote w')
      \<and> length (sha # shas) = length (f # fs) \<and> entries = blob_entries (f # fs) (sha # shas)"
    by (simp add: blob_entries_def)
  then show ?case by blast
qed

lemma createBlobs_of_answers:
  "blob_answers api own rep files (remote w) = (map Inr shas, r') \<Longrightarrow>
     createBlobs api own rep files w =
       (Inr (blob_entries files shas), \<lparr>remote = r', trace = trace w @ blob_requests own rep files\<rparr>)"
proof (induction files arbitrary: w shas)
  case Nil
  then show ?case by (simp add: blob_entries_def blob_requests_def)
next
  case (Cons f fs)
  obtain a r1 where p: "post_blob api own rep (base64 (content f)) ''base64'' (remote w) = (a, r1)"
    by (cases "post_blob api own rep (base64 (content f)) ''base64'' (remote w)")
  obtain as r2 where b: "blob_answers api own rep fs r1 = (as, r2)"
    by (cases "blob_answers api own rep fs r1")
  from Cons.prems p b obtain sha rest where
    parts: "shas = sha # rest" "a = Inr sha" "as = map Inr rest" "r2 = r'"
    by (cases shas) auto
  let ?w1 = "\<lparr>remote = r1, trace = trace w @ [Sent (PostBlob own rep (base64 (content f)) ''base64'')]\<rparr>"
  from b parts have "blob_answers api own rep fs (remote ?w1) = (map Inr rest, r')"
    by simp
  from Cons.IH [OF this] have "createBlobs api own rep fs ?w1 =
       (Inr (blob_entries fs rest), \<lparr>remote = r', trace = trace ?w1 @ blob_requests own rep fs\<rparr>)" .
  with p parts show ?case
    by (simp add: send_def blob_entries_def blob_requests_def)
qed

text \<open>\<open>commitFiles\<close> is its first five steps followed by the reference update.\<close>

lemma commitFiles_steps:
  "commitFiles api own rep files msg branch w =
     (case stageCommit api own rep files msg branch w of
        (Inl e, w5) \<Rightarrow> (Inl (handleError e ''Failed to commit files''), w5)
      | (Inr (latest, new), w5) \<Rightarrow>
          (case patch_ref api own rep branch new False (remote w5) of
             (Inl e, r6) \<Rightarrow>
               (Inl (handleError e ''Failed to commit files''),
                \<lparr>remote = r6, trace = trace w5 @ [Sent (PatchRef own rep branch new False)]\<rparr>)
           | (Inr u, r6) \<Rightarrow>
               (Inr \<lparr>commitSha = new\<rparr>,
                \<lparr>remote = r6, trace = trace w5 @ [Sent (PatchRef own rep branch new False)]\<rparr>)))"
  by (simp add: commitFiles_def stageCommit_def rethrow_def await_def return_def send_def
      split: prod.splits sum.splits)

lemma stageCommit_chain:
  assumes "stageCommit api own rep files msg branch w = (Inr (latest, new), w5)"
  shows "\<exists>r1 baseTree r2 shas w3 tree r4.
           get_ref api own rep branch (remote w) = (Inr latest, r1)
         \<and> get_commit api own rep latest r1 = (Inr baseTree, r2)
         \<and> createBlobs api own rep files
               \<lparr>remote = r2, trace = trace w @ [Sent (GetRef own rep branch), Sent (GetCommit own rep latest)]\<rparr>
             = (Inr (blob_entries files shas), w3)
         \<and> length shas = length files
         \<and> post_tree api own rep baseTree (blob_entries files shas) (remote w3) = (Inr tree, r4)
         \<and> post_commit api own rep msg tree [latest] r4 = (Inr new, remote w5)
         \<and> trace w5 = trace w @ [Sent (GetRef own rep branch), Sent (GetCommit own rep latest)]
                        @ blob_requests own rep files
                        @ [Sent (PostTree own rep baseTree (blob_entries files shas)),
                           Sent (PostCommit own rep msg tree [latest])]"
proof -
  obtain a1 r1 where g1: "get_ref api own rep branch (remote w) = (a1, r1)"
    by (cases "get_ref api own rep branch (remote w)")
  with assms obtain l where l: "a1 = Inr l"
    by (cases a1) (auto simp: stageCommit_def await_def send_def)
  obtain a2 r2 where g2: "get_commit api own rep l r1 = (a2, r2)"
    by (cases "get_commit api own rep l r1")
  with assms g1 l obtain bt where bt: "a2 = Inr bt"
    by (cases a2) (auto simp: stageCommit_def await_def send_def)
  let ?w2 = "\<lparr>remote = r2, trace = trace w @ [Sent (GetRef own rep branch), Sent (GetCommit own rep l)]\<rparr>"
  obtain a3 w3 where g3: "createBlobs api own rep files ?w2 = (a3, w3)"
    by (cases "createBlobs api own rep files ?w2")
  with assms g1 l g2 bt obtain entries where en: "a3 = Inr entries"
    by (cases a3) (auto simp: stageCommit_def await_def send_def)
  from createBlobs_entries [OF g3 [unfolded en]] obtain shas where
    shas: "length shas = length files" "entries = blob_entries files shas" by blast
  from createBlobs_trace [OF g3] have t3: "trace w3 = trace ?w2 @ blob_requests own rep files" .
  obtain a4 r4 where g4: "post_tree api own rep bt entries (remote w3) = (a4, r4)"
    by (cases "post_tree api own rep bt entries (remote w3)")
  with assms g1 l g2 bt g3 en obtain tr where tr: "a4 = Inr tr"
    by (cases a4) (auto simp: stageCommit_def await_def send_def)
  obtain a5 r5 where g5: "post_commit api own rep msg tr [l] r4 = (a5, r5)"
    by (cases "post_commit api own rep msg tr [l] r4")
  with assms g1 l g2 bt g3 en g4 tr have fin: "a5 = Inr new" "latest = l"
      "w5 = \<lparr>remote = r5, trace = trace w3 @ [Sent (PostTree own rep bt entries),
                                               Sent (PostCommit own rep msg tr [l])]\<rparr>"
    by (cases a5; simp add: stageCommit_def await_def send_def return_def)+
  from g1 l g2 bt g3 en shas t3 g4 tr g5 fin show ?thesis
    by (intro exI [of _ r1] exI [of _ bt] exI [of _ r2] exI [of _ shas] exI [of _ w3]
        exI [of _ tr] exI [of _ r4]) simp
qed

lemma commitFiles_extends:
  assumes "commitFiles api own rep files msg branch w = (Inr c, w')"
  shows "\<exists>evs. trace w' = trace w @ evs"
proof -
  from assms obtain latest new w5 where
    st: "stageCommit api own rep files msg branch w = (Inr (latest, new), w5)"
    and w': "trace w' = trace w5 @ [Sent (PatchRef own rep branch new False)]"
    by (auto simp: commitFiles_steps split: prod.splits sum.splits)
  from stageCommit_chain [OF st] w' show ?thesis
    by auto
qed

section \<open>Facts about the controller\<close>

text \<open>\<open>createTestRun\<close> on a valid request is its first five steps followed by step 6.\<close>

lemma createTestRun_steps:
  assumes "truthy (testScript body)" and "typeof (testScript body) = ''string''"
  shows "createTestRun api githubUsername template timestamp nowIso body s =
     (case dispatchRun api githubUsername template timestamp body s of
        (Inl e, s1) \<Rightarrow>
          (\<lparr>statusCode = 500,
            json = Failure (or_else (Some (error_message e)) ''Failed to create test run'')\<rparr>, s1)
      | (Inr repoResult, s1) \<Rightarrow>
          (case get_runs api (owner_of (fullName repoResult)) (repo_of (fullName repoResult)) 1
                  (remote (net s1)) of
             (Inl e, r2) \<Rightarrow>
               (\<lparr>statusCode = 500,
                 json = Failure (error_message (handleError e ''Failed to fetch workflow runs''))\<rparr>,
                s1\<lparr>net := \<lparr>remote = r2,
                             trace = trace (net s1)
                               @ [Sent (GetRuns (owner_of (fullName repoResult))
                                          (repo_of (fullName repoResult)) 1)]\<rparr>\<rparr>)
           | (Inr (listing, n), r2) \<Rightarrow>
               (\<lparr>statusCode = 201,
                 json = Created (''test-run-'' @ decimal timestamp)
                          (map_option gh_id (first_run listing)) (fullName repoResult)
                          (''https://github.com/'' @ fullName repoResult)
                          (map_option gh_html_url (first_run listing)) ''queued''
                          ''Test run created and workflow triggered successfully''\<rparr>,
                \<lparr>activeRuns = (activeRuns s1)(''test-run-'' @ decimal timestamp \<mapsto>
                     \<lparr>runId = ''test-run-'' @ decimal timestamp,
                      owner = owner_of (fullName repoResult),
                      repo = repo_of (fullName repoResult),
                      repoFullName = fullName repoResult,
                      workflowRunId = map_option gh_id (first_run listing),
                      testName = (case req_testName body of None \<Rightarrow> ''selenium-test'' | Some n \<Rightarrow> n),
                      createdAt = nowIso, status = ''queued'', conclusion = None,
                      updatedAt = None\<rparr>),
                 net = \<lparr>remote = r2,
                         trace = trace (net s1)
                           @ [Sent (GetRuns (owner_of (fullName repoResult))
                                      (repo_of (fullName repoResult)) 1)]\<rparr>\<rparr>)))"
  using assms
  apply (simp add: createTestRun_def dispatchRun_def catch500_def Let_def)
  apply (simp add: await_def return_def service_def getWorkflowRuns_eq first_run_def summary_def
      handleError_message_nonempty
      split: prod.splits sum.splits list.splits)
  done

lemma dispatchRun_steps:
  "dispatchRun api user template timestamp body s =
     (case createRepo api user (or_else (req_repoName body) (''selenium-test-'' @ decimal timestamp))
             True (net s) of
        (Inl e, w1) \<Rightarrow> (Inl e, s\<lparr>net := w1\<rparr>)
      | (Inr rr, w1) \<Rightarrow>
          (case template of
             Inl e \<Rightarrow> (Inl e, s\<lparr>net := w1\<rparr>)
           | Inr workflowContent \<Rightarrow>
               (case commitFiles api (owner_of (fullName rr)) (repo_of (fullName rr))
                       [\<lparr>path = ''test_script.py'', content = string_of (testScript body)\<rparr>,
                        \<lparr>path = ''.github/workflows/selenium-test.yml'', content = workflowContent\<rparr>]
                       (''Add Selenium test script for run '' @ ''test-run-'' @ decimal timestamp)
                       ''main'' w1 of
                  (Inl e, w2) \<Rightarrow> (Inl e, s\<lparr>net := w2\<rparr>)
                | (Inr c, w2) \<Rightarrow>
                    (case triggerWorkflow api (owner_of (fullName rr)) (repo_of (fullName rr))
                            ''selenium-test.yml'' [(''test_id'', ''test-run-'' @ decimal timestamp)]
                            ''main'' w2 of
                       (Inl e, w3) \<Rightarrow> (Inl e, s\<lparr>net := w3\<rparr>)
                     | (Inr m, w3) \<Rightarrow> (Inr rr, s\<lparr>net := w3\<rparr>)))))"
  by (simp add: dispatchRun_def Let_def await_def service_def return_def
      split: prod.splits sum.splits)

text \<open>A dispatch that succeeded ends with the wait, the dispatch request and the wait.\<close>

lemma dispatchRun_trace:
  assumes "dispatchRun api user template timestamp body s = (Inr repoResult, s1)"
  shows "(\<exists>evs. trace (net s1) = trace (net s) @ evs
           @ [Slept 2000,
              Sent (PostDispatch (owner_of (fullName repoResult)) (repo_of (fullName repoResult))
                      ''selenium-test.yml'' ''main'' [(''test_id'', ''test-run-'' @ decimal timestamp)]),
              Slept 3000])
       \<and> activeRuns s1 = activeRuns s"
proof -
  let ?nm = "or_else (req_repoName body) (''selenium-test-'' @ decimal timestamp)"
  obtain r1 w1 where c1: "createRepo api user ?nm True (net s) = (r1, w1)"
    by (cases "createRepo api user ?nm True (net s)")
  show ?thesis
  proof (cases r1)
    case (Inl e)
    with assms c1 show ?thesis by (simp add: dispatchRun_steps)
  next
    case rr: (Inr rr)
    show ?thesis
    proof (cases template)
      case (Inl e)
      with assms c1 rr show ?thesis by (simp add: dispatchRun_steps)
    next
      case tpl: (Inr workflowContent)
      let ?own = "owner_of (fullName rr)" and ?rep = "repo_of (fullName rr)"
      let ?files = "[\<lparr>path = ''test_script.py'', content = string_of (testScript body)\<rparr>,
                     \<lparr>path = ''.github/workflows/selenium-test.yml'', content = workflowContent\<rparr>]"
      let ?msg = "''Add Selenium test script for run '' @ ''test-run-'' @ decimal timestamp"
      obtain r2 w2 where c2: "commitFiles api ?own ?rep ?files ?msg ''main'' w1 = (r2, w2)"
        by (cases "commitFiles api ?own ?rep ?files ?msg ''main'' w1")
      show ?thesis
      proof (cases r2)
        case (Inl e)
        with assms c1 rr tpl c2 show ?thesis by (simp add: dispatchRun_steps)
      next
        case c: (Inr c)
        obtain r3 w3 where c3: "triggerWorkflow api ?own ?rep ''selenium-test.yml''
              [(''test_id'', ''test-run-'' @ decimal timestamp)] ''main'' w2 = (r3, w3)"
          by (cases "triggerWorkflow api ?own ?rep ''selenium-test.yml''
              [(''test_id'', ''test-run-'' @ decimal timestamp)] ''main'' w2")
        show ?thesis
        proof (cases r3)
          case (Inl e)
          with assms c1 rr tpl c2 c c3 show ?thesis by (simp add: dispatchRun_steps)
        next
          case m: (Inr m)
          from assms c1 rr tpl c2 c c3 m have fin: "repoResult = rr" "s1 = s\<lparr>net := w3\<rparr>"
            by (simp_all add: dispatchRun_steps)
          from createRepo_trace [OF c1] have t1: "trace w1 = trace (net s)
              @ [Sent (PostUserRepos ?nm ''Automated Selenium test execution repository'' True True)]" .
          from commitFiles_extends [OF c2 [unfolded c]] obtain evs where
            t2: "trace w2 = trace w1 @ evs" by blast
          from triggerWorkflow_trace [OF c3 [unfolded m]] have t3: "trace w3 = trace w2
              @ [Slept 2000, Sent (PostDispatch ?own ?rep ''selenium-test.yml'' ''main''
                   [(''test_id'', ''test-run-'' @ decimal timestamp)]), Slept 3000]" .
          from fin t1 t2 t3 show ?thesis by simp
        qed
      qed
    qed
  qed
qed

text \<open>The decimal text of a number determines the number.\<close>

lemma decimal_nonempty: "decimal n \<noteq> []"
  by (subst decimal.simps) simp

lemma digit_inj:
  assumes "a < 10" "b < 10" "''0123456789'' ! a = ''0123456789'' ! b"
  shows "a = b"
proof -
  have "distinct ''0123456789''" by simp
  moreover have "a < length ''0123456789''" "b < length ''0123456789''"
    using assms by simp_all
  ultimately show ?thesis
    using assms(3) nth_eq_iff_index_eq by blast
qed

lemma decimal_inj: "decimal n = decimal m \<Longrightarrow> n = m"
proof (induction n arbitrary: m rule: decimal.induct)
  case (1 n)
  show ?case
  proof (cases "n < 10")
    case small: True
    show ?thesis
    proof (cases "m < 10")
      case True
      with small "1.prems" show ?thesis
        by (subst (asm) decimal.simps, subst (asm) (2) decimal.simps) (simp add: digit_inj)
    next
      case False
      with small "1.prems" have "decimal (m div 10) = []"
        by (subst (asm) decimal.simps, subst (asm) (2) decimal.simps) simp
      then show ?thesis by (simp add: decimal_nonempty)
    qed
  next
    case big: False
    show ?thesis
    proof (cases "m < 10")
      case True
      with big "1.prems" have "decimal (n div 10) = []"
        by (subst (asm) decimal.simps, subst (asm) (2) decimal.simps) simp
      then show ?thesis by (simp add: decimal_nonempty)
    next
      case False
      with big "1.prems" have eq: "decimal (n div 10) = decimal (m div 10)"
          "''0123456789'' ! (n mod 10) = ''0123456789'' ! (m mod 10)"
        by (subst (asm) decimal.simps, subst (asm) (2) decimal.simps, simp)+
      from "1.IH" [OF big eq(1)] have "n div 10 = m div 10" .
      moreover from eq(2) have "n mod 10 = m mod 10"
        by (intro digit_inj) simp_all
      ultimately show ?thesis
        by (metis div_mult_mod_eq)
    qed
  qed
qed

lemma createTestRun_created:
  assumes "statusCode (fst (createTestRun api githubUsername template timestamp nowIso body s)) = 201"
  shows "created_runId (json (fst (createTestRun api githubUsername template timestamp nowIso body s)))
           = ''test-run-'' @ decimal timestamp
       \<and> map_option runId (activeRuns (snd (createTestRun api githubUsername template timestamp nowIso body s))
           (''test-run-'' @ decimal timestamp)) = Some (''test-run-'' @ decimal timestamp)"
proof (cases "truthy (testScript body) \<and> typeof (testScript body) = ''string''")
  case True
  then show ?thesis
    using assms
    by (auto simp: createTestRun_steps split: prod.splits sum.splits)
next
  case False
  then have "statusCode (fst (createTestRun api githubUsername template timestamp nowIso body s)) = 400"
    by (auto simp: createTestRun_def catch500_def return_def)
  with assms show ?thesis by simp
qed

lemma getStatus_trace:
  assumes "activeRuns s rid = Some md"
  shows "trace (net (snd (getStatus api nowIso rid s)))
           = trace (net s) @ [Sent (GetRun (owner md) (repo md) (workflowRunId md))]"
  using assms
  by (simp add: getStatus_def catch500_def await_def service_def getWorkflowRunById_eq
      split: prod.splits sum.splits)

section \<open>The executions on the small platform, evaluated\<close>

lemmas service_defs =
  catch500_def await_def service_def return_def createRepo_def send_def commitFiles_def
  rethrow_def triggerWorkflow_def sleep_def getWorkflowRuns_def getWorkflowRunById_def
  deleteRepo_def stageCommit_def owner_of_def repo_of_def Let_def summary_def handleError_def
  Error_def b64_def decimal.simps first_run_def

lemmas host_defs =
  host_api_def host_post_user_repos_def host_get_ref_def host_get_commit_def host_post_blob_def
  host_post_tree_def host_post_commit_def host_patch_ref_def host_post_dispatch_def
  host_get_runs_def host_get_run_def host_delete_repo_def holds_def take_id_def refused_def
  not_found_def new_run_def boot_def fresh_host_def demo_host_def slow_host_def
  contested_host_def demo_body_def other_body_def demo_files_def first_requests_def
  first_metadata_def

lemma host_api_simps:
  "post_user_repos host_api = host_post_user_repos" "get_ref host_api = host_get_ref"
  "get_commit host_api = host_get_commit" "post_blob host_api = host_post_blob"
  "post_tree host_api = host_post_tree" "post_commit host_api = host_post_commit"
  "patch_ref host_api = host_patch_ref" "post_dispatch host_api = host_post_dispatch"
  "get_runs host_api = host_get_runs" "get_run host_api = host_get_run"
  "get_jobs host_api = host_get_jobs" "get_run_logs host_api = host_get_run_logs"
  "delete_repo host_api = host_delete_repo"
  by (simp_all add: host_api_def)

text \<open>The first request on the platform as it is: run 1 is listed at once and found.\<close>

lemma prompt_first_eq:
  "prompt_first =
     (\<lparr>statusCode = 201,
       json = Created ''test-run-1000'' (Some 1) ''octo/demo'' ''https://github.com/octo/demo''
                (Some ''https://github.com/octo/demo/actions/runs/1'') ''queued''
                ''Test run created and workflow triggered successfully''\<rparr>,
      \<lparr>activeRuns = [''test-run-1000'' \<mapsto> first_metadata (Some 1)],
       net = \<lparr>remote =
                 \<lparr>login = ''octo'', hosted = Some ''octo/demo'', head = ''c1'',
                  parent = [(''c1'', ''c0'')], tree_of = [(''c1'', ''t1''), (''c0'', ''t0'')],
                  stock = [''b3'', ''b4'', ''t2'', ''c2''],
                  listed = [new_run ''octo'' ''demo'' ''selenium-test.yml'' ''main'' 1 ''c1''],
                  pending = [], prompt = True, next_run = 2, rival = None,
                  feed = [(''completed'', Some ''success''), (''queued'', None)]\<rparr>,
               trace = first_requests\<rparr>\<rparr>)"
  unfolding prompt_first_def
  by (simp add: createTestRun_def service_defs host_defs)

text \<open>The first request on the slow platform: run 1 is scheduled, and not listed.\<close>

lemma slow_first_eq:
  "slow_first =
     (\<lparr>statusCode = 201,
       json = Created ''test-run-1000'' None ''octo/demo'' ''https://github.com/octo/demo''
                None ''queued'' ''Test run created and workflow triggered successfully''\<rparr>,
      \<lparr>activeRuns = [''test-run-1000'' \<mapsto> first_metadata None],
       net = \<lparr>remote =
                 \<lparr>login = ''octo'', hosted = Some ''octo/demo'', head = ''c1'',
                  parent = [(''c1'', ''c0'')], tree_of = [(''c1'', ''t1''), (''c0'', ''t0'')],
                  stock = [''b3'', ''b4'', ''t2'', ''c2''], listed = [],
                  pending = [new_run ''octo'' ''demo'' ''selenium-test.yml'' ''main'' 1 ''c1''],
                  prompt = False, next_run = 2, rival = None,
                  feed = [(''completed'', Some ''success''), (''queued'', None)]\<rparr>,
               trace = first_requests\<rparr>\<rparr>)"
  unfolding slow_first_def
  by (simp add: createTestRun_def service_defs host_defs)

lemma slow_dispatch:
  "dispatchRun host_api ''octo'' (Inr ''on: workflow_dispatch'') 1000 demo_body (boot slow_host) =
     (Inr \<lparr>fullName = ''octo/demo'', defaultBranch = ''main'', alreadyExists = False\<rparr>,
      \<lparr>activeRuns = Map.empty,
       net = \<lparr>remote =
                 \<lparr>login = ''octo'', hosted = Some ''octo/demo'', head = ''c1'',
                  parent = [(''c1'', ''c0'')], tree_of = [(''c1'', ''t1''), (''c0'', ''t0'')],
                  stock = [''b3'', ''b4'', ''t2'', ''c2''], listed = [],
                  pending = [new_run ''octo'' ''demo'' ''selenium-test.yml'' ''main'' 1 ''c1''],
                  prompt = False, next_run = 2, rival = None,
                  feed = [(''completed'', Some ''success''), (''queued'', None)]\<rparr>,
               trace = butlast first_requests\<rparr>\<rparr>)"
  by (simp add: dispatchRun_def service_defs host_defs)

text \<open>
  The second request on the slow platform, up to its dispatch: the branch is at its
  commit \<open>c2\<close>, the run listed is run 1 of the first request, at commit \<open>c1\<close>.
\<close>

lemma slow_second_dispatch:
  "\<exists>tr. dispatchRun host_api ''octo'' (Inr ''on: workflow_dispatch'') 2000 other_body (snd slow_first) =
     (Inr \<lparr>fullName = ''octo/demo'', defaultBranch = ''main'', alreadyExists = True\<rparr>,
      \<lparr>activeRuns = [''test-run-1000'' \<mapsto> first_metadata None],
       net = \<lparr>remote =
                 \<lparr>login = ''octo'', hosted = Some ''octo/demo'', head = ''c2'',
                  parent = [(''c2'', ''c1''), (''c1'', ''c0'')],
                  tree_of = [(''c2'', ''t2''), (''c1'', ''t1''), (''c0'', ''t0'')],
                  stock = [],
                  listed = [new_run ''octo'' ''demo'' ''selenium-test.yml'' ''main'' 1 ''c1''],
                  pending = [new_run ''octo'' ''demo'' ''selenium-test.yml'' ''main'' 2 ''c2''],
                  prompt = False, next_run = 3, rival = None,
                  feed = [(''completed'', Some ''success''), (''queued'', None)]\<rparr>,
               trace = tr\<rparr>\<rparr>)"
  by (simp add: slow_first_eq dispatchRun_def service_defs host_defs)

text \<open>The first refresh of the run of the first request: completed, with success.\<close>

lemma refresh1_eq:
  "refresh1 =
     (\<lparr>statusCode = 200,
       json = Status ''test-run-1000'' (Some 1) ''completed'' (Some ''success'')
                ''https://github.com/octo/demo/actions/runs/1'' ''2025-11-24T10:29:55Z''
                (Some ''2025-11-24T10:35:00Z'')\<rparr>,
      \<lparr>activeRuns = [''test-run-1000'' \<mapsto>
          (first_metadata (Some 1))\<lparr>status := ''completed'', conclusion := Some ''success'',
                                   updatedAt := Some ''2025-11-24T10:35:00Z''\<rparr>],
       net = \<lparr>remote =
                 \<lparr>login = ''octo'', hosted = Some ''octo/demo'', head = ''c1'',
                  parent = [(''c1'', ''c0'')], tree_of = [(''c1'', ''t1''), (''c0'', ''t0'')],
                  stock = [''b3'', ''b4'', ''t2'', ''c2''],
                  listed = [new_run ''octo'' ''demo'' ''selenium-test.yml'' ''main'' 1 ''c1''],
                  pending = [], prompt = True, next_run = 2, rival = None,
                  feed = [(''queued'', None)]\<rparr>,
               trace = first_requests @ [Sent (GetRun ''octo'' ''demo'' (Some 1))]\<rparr>\<rparr>)"
  unfolding refresh1_def
  by (simp add: prompt_first_eq getStatus_def service_defs host_defs)

text \<open>
  A commit on the platform where another writer pushes \<open>x1\<close> while the service reads
  the head commit: after step 5 the branch is at \<open>x1\<close>, the new commit \<open>c1\<close> has the
  old head \<open>c0\<close> as its parent.
\<close>

lemma contested_stage:
  "stageCommit host_api ''octo'' ''demo'' demo_files
       ''Add Selenium test script for run test-run-1000'' ''main''
       \<lparr>remote = contested_host, trace = []\<rparr> =
     (Inr (''c0'', ''c1''),
      \<lparr>remote =
         \<lparr>login = ''octo'', hosted = Some ''octo/demo'', head = ''x1'',
          parent = [(''c1'', ''c0''), (''x1'', ''c0'')],
          tree_of = [(''c1'', ''t1''), (''x1'', ''t0''), (''c0'', ''t0'')],
          stock = [''b3'', ''b4'', ''t2'', ''c2''], listed = [], pending = [], prompt = True,
          next_run = 1, rival = None,
          feed = [(''completed'', Some ''success''), (''queued'', None)]\<rparr>,
       trace = take 6 (tl first_requests)\<rparr>)"
  by (simp add: service_defs host_defs)

text \<open>The same commit with no other writer.\<close>

lemma demo_commit:
  "commitFiles host_api ''octo'' ''demo'' demo_files
       ''Add Selenium test script for run test-run-1000'' ''main''
       \<lparr>remote = demo_host, trace = []\<rparr> =
     (Inr \<lparr>commitSha = ''c1''\<rparr>,
      \<lparr>remote =
         \<lparr>login = ''octo'', hosted = Some ''octo/demo'', head = ''c1'',
          parent = [(''c1'', ''c0'')], tree_of = [(''c1'', ''t1''), (''c0'', ''t0'')],
          stock = [''b3'', ''b4'', ''t2'', ''c2''], listed = [], pending = [], prompt = True,
          next_run = 1, rival = None,
          feed = [(''completed'', Some ''success''), (''queued'', None)]\<rparr>,
       trace = take 7 (tl first_requests)\<rparr>)"
  by (simp add: service_defs host_defs)

section \<open>The claims\<close>

subsection \<open>C1: correlation of a dispatch with its run\<close>

text \<open>
  C1, as the code has it. In a test-run creation whose dispatch succeeded, the
  correlation step is one request for the run list with page size 1, sent right after
  the dispatch and its fixed wait of three seconds. The run is registered with the id
  of the first run of the answer, whatever the head commit and the creation time of
  that run are, and with no id when the answer is empty: no head sha and no creation
  time is compared with anything, and the list is not asked for again.
\<close>

theorem correlation_takes_first_listed_run:
  assumes "truthy (testScript body)" and "typeof (testScript body) = ''string''"
    and "dispatchRun api githubUsername template timestamp body s = (Inr repoResult, s1)"
    and "get_runs api (owner_of (fullName repoResult)) (repo_of (fullName repoResult)) 1
           (remote (net s1)) = (Inr (listing, n), r2)"
  shows "map_option workflowRunId
           (activeRuns (snd (createTestRun api githubUsername template timestamp nowIso body s))
              (''test-run-'' @ decimal timestamp))
         = Some (map_option gh_id (first_run listing))
       \<and> trace (net (snd (createTestRun api githubUsername template timestamp nowIso body s)))
         = trace (net s1) @ [Sent (GetRuns (owner_of (fullName repoResult))
                                     (repo_of (fullName repoResult)) 1)]
       \<and> (\<exists>evs. trace (net s1) = trace (net s) @ evs
             @ [Slept 2000,
                Sent (PostDispatch (owner_of (fullName repoResult)) (repo_of (fullName repoResult))
                        ''selenium-test.yml'' ''main''
                        [(''test_id'', ''test-run-'' @ decimal timestamp)]),
                Slept 3000])"
  using assms dispatchRun_trace [OF assms(3)]
  by (simp add: createTestRun_steps)

text \<open>
  On the slow platform the second request is registered with run 1, the first run
  listed when it asks.
\<close>

theorem correlation_takes_first_listed_run_witness:
  "truthy (testScript other_body) \<and> typeof (testScript other_body) = ''string''
   \<and> (\<exists>s1. dispatchRun host_api ''octo'' (Inr ''on: workflow_dispatch'') 2000 other_body (snd slow_first)
             = (Inr \<lparr>fullName = ''octo/demo'', defaultBranch = ''main'', alreadyExists = True\<rparr>, s1)
           \<and> fst (get_runs host_api ''octo'' ''demo'' 1 (remote (net s1)))
             = Inr ([new_run ''octo'' ''demo'' ''selenium-test.yml'' ''main'' 1 ''c1''], 1))
   \<and> map_option workflowRunId (activeRuns (snd slow_second) ''test-run-2000'') = Some (Some 1)"
proof -
  have valid: "truthy (testScript other_body)" "typeof (testScript other_body) = ''string''"
    by (simp_all add: other_body_def)
  from slow_second_dispatch obtain s1 where
    d: "dispatchRun host_api ''octo'' (Inr ''on: workflow_dispatch'') 2000 other_body (snd slow_first)
          = (Inr \<lparr>fullName = ''octo/demo'', defaultBranch = ''main'', alreadyExists = True\<rparr>, s1)"
    and h: "hosted (remote (net s1)) = Some ''octo/demo''"
      "listed (remote (net s1)) = [new_run ''octo'' ''demo'' ''selenium-test.yml'' ''main'' 1 ''c1'']"
    by force
  have g: "get_runs host_api
             (owner_of (fullName \<lparr>fullName = ''octo/demo'', defaultBranch = ''main'', alreadyExists = True\<rparr>))
             (repo_of (fullName \<lparr>fullName = ''octo/demo'', defaultBranch = ''main'', alreadyExists = True\<rparr>))
             1 (remote (net s1))
           = (Inr ([new_run ''octo'' ''demo'' ''selenium-test.yml'' ''main'' 1 ''c1''], 1), remote (net s1))"
    using h by (simp add: host_api_def host_get_runs_def holds_def owner_of_def repo_of_def)
  from g have g': "fst (get_runs host_api ''octo'' ''demo'' 1 (remote (net s1)))
           = Inr ([new_run ''octo'' ''demo'' ''selenium-test.yml'' ''main'' 1 ''c1''], 1)"
    by (simp add: owner_of_def repo_of_def)
  from correlation_takes_first_listed_run [OF valid d g, of "''2025-11-24T10:29:56Z''"]
  have "map_option workflowRunId (activeRuns (snd slow_second) ''test-run-2000'') = Some (Some 1)"
    by (simp add: slow_second_def first_run_def new_run_def decimal.simps)
  with valid d g' show ?thesis
    by blast
qed

text \<open>
  C1 as stated fails. Two requests for the same repository reach the slow platform one
  after the other, with different scripts. The second request produces commit \<open>c2\<close>
  and is registered with run 1, the run that the platform scheduled for the first
  request at commit \<open>c1\<close>; the first request is registered with no run at all.
\<close>

theorem correlation_assigns_run_of_other_commit:
  "map_option workflowRunId (activeRuns (snd slow_second) ''test-run-2000'') = Some (Some 1)
   \<and> listed (remote (net (snd slow_second)))
       = [new_run ''octo'' ''demo'' ''selenium-test.yml'' ''main'' 1 ''c1'']
   \<and> gh_head_sha (new_run ''octo'' ''demo'' ''selenium-test.yml'' ''main'' 1 ''c1'') = ''c1''
   \<and> Sent (PatchRef ''octo'' ''demo'' ''main'' ''c2'' False)
       \<in> set (drop (length (trace (net (snd slow_first)))) (trace (net (snd slow_second))))
   \<and> Sent (PatchRef ''octo'' ''demo'' ''main'' ''c1'' False) \<in> set (trace (net (snd slow_first)))
   \<and> map_option workflowRunId (activeRuns (snd slow_second) ''test-run-1000'') = Some None"
  unfolding slow_second_def
  by (simp add: slow_first_eq createTestRun_def service_defs host_defs)

subsection \<open>C2: the stored status of a run\<close>

text \<open>
  C2, as the code has it. For every registered TestRun, a refresh (\<open>getStatus\<close>) that
  the platform answers replaces the stored status and conclusion by the ones the
  platform reports at that moment, whatever was stored before; a refresh whose request
  fails leaves the registry as it is. The stored status therefore moves forward only as
  far as the platform's reports do.
\<close>

theorem refresh_stores_what_the_platform_reports:
  assumes "activeRuns s rid = Some md"
  shows "activeRuns (snd (getStatus api nowIso rid s)) =
     (case fst (get_run api (owner md) (repo md) (workflowRunId md) (remote (net s))) of
        Inl e \<Rightarrow> activeRuns s
      | Inr run \<Rightarrow>
          (activeRuns s)(rid \<mapsto> md\<lparr>status := gh_status run, conclusion := gh_conclusion run,
                                      updatedAt := Some nowIso\<rparr>))"
  using assms
  by (simp add: getStatus_def catch500_def await_def service_def getWorkflowRunById_eq
      split: prod.splits sum.splits)

theorem refresh_stores_what_the_platform_reports_witness:
  "activeRuns (snd refresh1) ''test-run-1000''
     = Some ((first_metadata (Some 1))\<lparr>status := ''completed'', conclusion := Some ''success'',
                                       updatedAt := Some ''2025-11-24T10:35:00Z''\<rparr>)
   \<and> activeRuns (snd refresh2)
     = [''test-run-1000'' \<mapsto>
          (first_metadata (Some 1))\<lparr>status := ''queued'', conclusion := None,
                                   updatedAt := Some ''2025-11-24T10:40:00Z''\<rparr>]"
proof -
  have reg: "activeRuns (snd refresh1) ''test-run-1000''
     = Some ((first_metadata (Some 1))\<lparr>status := ''completed'', conclusion := Some ''success'',
                                       updatedAt := Some ''2025-11-24T10:35:00Z''\<rparr>)"
    by (simp add: refresh1_eq)
  from refresh_stores_what_the_platform_reports [OF reg, of host_api "''2025-11-24T10:40:00Z''"]
  have "activeRuns (snd refresh2)
     = [''test-run-1000'' \<mapsto>
          (first_metadata (Some 1))\<lparr>status := ''queued'', conclusion := None,
                                   updatedAt := Some ''2025-11-24T10:40:00Z''\<rparr>]"
    by (simp add: refresh2_def refresh1_eq host_defs)
  with reg show ?thesis
    by simp
qed

text \<open>
  C2 as stated fails. The run of the first request is refreshed twice. The first
  refresh records \<open>completed\<close> with conclusion \<open>success\<close>; the run is then re-run on
  the platform, which reports it as \<open>queued\<close> with no conclusion, and the second
  refresh stores exactly that.
\<close>

theorem refresh_reverts_completed_run:
  "map_option status (activeRuns (snd refresh1) ''test-run-1000'') = Some ''completed''
   \<and> map_option conclusion (activeRuns (snd refresh1) ''test-run-1000'') = Some (Some ''success'')
   \<and> map_option status (activeRuns (snd refresh2) ''test-run-1000'') = Some ''queued''
   \<and> map_option conclusion (activeRuns (snd refresh2) ''test-run-1000'') = Some None"
  unfolding refresh2_def
  by (simp add: refresh1_eq getStatus_def service_defs host_defs)

subsection \<open>C3: the reference update of a commit\<close>

text \<open>
  C3, as the code has it. Once steps 1 to 5 have created the new commit, the only
  thing \<open>commitFiles\<close> does is one reference update, and it is not forced. When the
  platform accepts it the commit succeeds; when the platform rejects it (as it does
  for a branch that another writer advanced since step 1) the failure surfaces as a
  plain \<open>Error\<close> whose message is \<open>Failed to commit files: \<close> followed by the
  platform's message, never as a success. No request of steps 1 to 5 touches the
  reference. There is no \<open>ConflictError\<close>.
\<close>

theorem ref_update_is_never_forced:
  assumes "stageCommit api own rep files msg branch w = (Inr (latest, new), w5)"
  shows "commitFiles api own rep files msg branch w =
     (case patch_ref api own rep branch new False (remote w5) of
        (Inl e, r6) \<Rightarrow>
          (Inl (handleError e ''Failed to commit files''),
           \<lparr>remote = r6, trace = trace w5 @ [Sent (PatchRef own rep branch new False)]\<rparr>)
      | (Inr u, r6) \<Rightarrow>
          (Inr \<lparr>commitSha = new\<rparr>,
           \<lparr>remote = r6, trace = trace w5 @ [Sent (PatchRef own rep branch new False)]\<rparr>))
   \<and> (\<exists>baseTree shas tree.
         trace w5 = trace w @ [Sent (GetRef own rep branch), Sent (GetCommit own rep latest)]
                      @ blob_requests own rep files
                      @ [Sent (PostTree own rep baseTree (blob_entries files shas)),
                         Sent (PostCommit own rep msg tree [latest])])
   \<and> (\<forall>e. error_name (handleError e ''Failed to commit files'') = ''Error'')"
proof -
  from stageCommit_chain [OF assms] have "\<exists>baseTree shas tree.
         trace w5 = trace w @ [Sent (GetRef own rep branch), Sent (GetCommit own rep latest)]
                      @ blob_requests own rep files
                      @ [Sent (PostTree own rep baseTree (blob_entries files shas)),
                         Sent (PostCommit own rep msg tree [latest])]"
    by blast
  then show ?thesis
    using assms by (simp add: commitFiles_steps handleError_name)
qed

theorem ref_update_is_never_forced_witness:
  "fst (stageCommit host_api ''octo'' ''demo'' demo_files
          ''Add Selenium test script for run test-run-1000'' ''main''
          \<lparr>remote = contested_host, trace = []\<rparr>) = Inr (''c0'', ''c1'')
   \<and> fst (commitFiles host_api ''octo'' ''demo'' demo_files
          ''Add Selenium test script for run test-run-1000'' ''main''
          \<lparr>remote = contested_host, trace = []\<rparr>)
       = Inl (Error ''Failed to commit files: Update is not a fast forward'')
   \<and> head (remote (snd (commitFiles host_api ''octo'' ''demo'' demo_files
          ''Add Selenium test script for run test-run-1000'' ''main''
          \<lparr>remote = contested_host, trace = []\<rparr>))) = ''x1''"
  using ref_update_is_never_forced [OF contested_stage]
  by (simp add: contested_stage host_api_simps host_patch_ref_def holds_def refused_def
      handleError_def decimal.simps)

text \<open>
  C3 as stated fails in one point. Another writer pushes \<open>x1\<close> between step 1 and
  step 6; the platform rejects the update, the branch stays at \<open>x1\<close>, and what
  \<open>commitFiles\<close> throws is an \<open>Error\<close>, not a \<open>ConflictError\<close>; \<open>createTestRun\<close>
  answers it with status 500 like any other failure.
\<close>

theorem non_fast_forward_is_a_plain_error:
  "(\<exists>e. fst (commitFiles host_api ''octo'' ''demo'' demo_files
              ''Add Selenium test script for run test-run-1000'' ''main''
              \<lparr>remote = contested_host, trace = []\<rparr>) = Inl e
        \<and> error_name e = ''Error'' \<and> error_name e \<noteq> ''ConflictError''
        \<and> error_message e = ''Failed to commit files: Update is not a fast forward'')
   \<and> fst (createTestRun host_api ''octo'' (Inr ''on: workflow_dispatch'') 1000
            ''2025-11-24T10:29:55Z'' demo_body (boot (fresh_host\<lparr>rival := Some ''x1''\<rparr>)))
       = \<lparr>statusCode = 500,
          json = Failure ''Failed to commit files: Update is not a fast forward''\<rparr>"
  by (simp add: createTestRun_def service_defs host_defs)

subsection \<open>C4: one commit with all files\<close>

text \<open>
  C4. For any list of files, \<open>commitFiles\<close> succeeds exactly when the platform answers
  each of the following requests with success, and these are then all the requests it
  has sent, in this order: the head of the branch is read (\<open>latest\<close>), then the tree
  of that commit (\<open>baseTree\<close>); one blob is created per file, from the base64 text of
  its content, and the platform answers with the blob ids \<open>shas\<close>; one tree is
  created with \<open>baseTree\<close> as its base and one entry per file, in the order of the
  files, with the file's path, mode \<open>100644\<close>, type \<open>blob\<close> and the id that the
  platform gave for that file's blob (so that paths not listed come from the base
  tree); one commit is created with that tree and the single parent \<open>latest\<close>; the
  branch is moved, not forced, to that commit, which is the commit returned.
\<close>

theorem commitFiles_one_commit_with_all_files:
  "(commitFiles api own rep files msg branch w = (Inr result, w')) =
   (\<exists>latest r1 baseTree r2 shas r3 tree r4 r5.
           get_ref api own rep branch (remote w) = (Inr latest, r1)
         \<and> get_commit api own rep latest r1 = (Inr baseTree, r2)
         \<and> blob_answers api own rep files r2 = (map Inr shas, r3)
         \<and> length shas = length files
         \<and> post_tree api own rep baseTree (blob_entries files shas) r3 = (Inr tree, r4)
         \<and> post_commit api own rep msg tree [latest] r4 = (Inr (commitSha result), r5)
         \<and> patch_ref api own rep branch (commitSha result) False r5 = (Inr (), remote w')
         \<and> trace w' = trace w @ [Sent (GetRef own rep branch), Sent (GetCommit own rep latest)]
                        @ blob_requests own rep files
                        @ [Sent (PostTree own rep baseTree (blob_entries files shas)),
                           Sent (PostCommit own rep msg tree [latest]),
                           Sent (PatchRef own rep branch (commitSha result) False)])"
  (is "?succeeds = ?chain")
proof
  assume ok: ?succeeds
  obtain a w5 where st: "stageCommit api own rep files msg branch w = (a, w5)"
    by (cases "stageCommit api own rep files msg branch w")
  with ok obtain latest new where a: "a = Inr (latest, new)"
    by (cases a) (auto simp: commitFiles_steps)
  obtain b r6 where p: "patch_ref api own rep branch new False (remote w5) = (b, r6)"
    by (cases "patch_ref api own rep branch new False (remote w5)")
  with ok st a have fin: "b = Inr ()" "result = \<lparr>commitSha = new\<rparr>"
      "w' = \<lparr>remote = r6, trace = trace w5 @ [Sent (PatchRef own rep branch new False)]\<rparr>"
    by (cases b; simp add: commitFiles_steps)+
  from stageCommit_chain [OF st [unfolded a]] obtain r1 baseTree r2 shas0 w3 tree r4 where
    chain: "get_ref api own rep branch (remote w) = (Inr latest, r1)"
      "get_commit api own rep latest r1 = (Inr baseTree, r2)"
      "createBlobs api own rep files
               \<lparr>remote = r2, trace = trace w @ [Sent (GetRef own rep branch), Sent (GetCommit own rep latest)]\<rparr>
             = (Inr (blob_entries files shas0), w3)"
      "post_tree api own rep baseTree (blob_entries files shas0) (remote w3) = (Inr tree, r4)"
      "post_commit api own rep msg tree [latest] r4 = (Inr new, remote w5)"
      "trace w5 = trace w @ [Sent (GetRef own rep branch), Sent (GetCommit own rep latest)]
                        @ blob_requests own rep files
                        @ [Sent (PostTree own rep baseTree (blob_entries files shas0)),
                           Sent (PostCommit own rep msg tree [latest])]"
    by blast
  from createBlobs_answers [OF chain(3)] obtain shas where
    blobs: "blob_answers api own rep files r2 = (map Inr shas, remote w3)"
      "length shas = length files" "blob_entries files shas0 = blob_entries files shas"
    by auto
  from chain blobs p fin show ?chain
    by (intro exI [of _ latest] exI [of _ r1] exI [of _ baseTree] exI [of _ r2] exI [of _ shas]
        exI [of _ "remote w3"] exI [of _ tree] exI [of _ r4] exI [of _ "remote w5"]) simp
next
  assume ?chain
  then obtain latest r1 baseTree r2 shas r3 tree r4 r5 where
    chain: "get_ref api own rep branch (remote w) = (Inr latest, r1)"
      "get_commit api own rep latest r1 = (Inr baseTree, r2)"
      "blob_answers api own rep files r2 = (map Inr shas, r3)"
      "post_tree api own rep baseTree (blob_entries files shas) r3 = (Inr tree, r4)"
      "post_commit api own rep msg tree [latest] r4 = (Inr (commitSha result), r5)"
      "patch_ref api own rep branch (commitSha result) False r5 = (Inr (), remote w')"
      "trace w' = trace w @ [Sent (GetRef own rep branch), Sent (GetCommit own rep latest)]
                        @ blob_requests own rep files
                        @ [Sent (PostTree own rep baseTree (blob_entries files shas)),
                           Sent (PostCommit own rep msg tree [latest]),
                           Sent (PatchRef own rep branch (commitSha result) False)]"
    by blast
  let ?w2 = "\<lparr>remote = r2, trace = trace w @ [Sent (GetRef own rep branch), Sent (GetCommit own rep latest)]\<rparr>"
  from chain(3) have "blob_answers api own rep files (remote ?w2) = (map Inr shas, r3)"
    by simp
  from createBlobs_of_answers [OF this] have blobs: "createBlobs api own rep files ?w2 =
       (Inr (blob_entries files shas), \<lparr>remote = r3, trace = trace ?w2 @ blob_requests own rep files\<rparr>)" .
  have "commitFiles api own rep files msg branch w =
      (Inr \<lparr>commitSha = commitSha result\<rparr>, \<lparr>remote = remote w', trace = trace w'\<rparr>)"
    using chain blobs
    by (simp add: commitFiles_def rethrow_def await_def send_def return_def)
  then show ?succeeds
    by simp
qed

text \<open>
  The two files of a test run on the platform holding \<open>octo/demo\<close> at \<open>c0\<close>: two
  blobs \<open>b1\<close> and \<open>b2\<close>, one tree on \<open>t0\<close> naming them, one commit \<open>c1\<close> on \<open>c0\<close>.
\<close>

theorem commitFiles_one_commit_with_all_files_witness:
  "fst (commitFiles host_api ''octo'' ''demo'' demo_files
          ''Add Selenium test script for run test-run-1000'' ''main''
          \<lparr>remote = demo_host, trace = []\<rparr>) = Inr \<lparr>commitSha = ''c1''\<rparr>
   \<and> (\<exists>r2 r3. blob_answers host_api ''octo'' ''demo'' demo_files r2 = ([Inr ''b1'', Inr ''b2''], r3))
   \<and> take 7 (tl first_requests)
       = [Sent (GetRef ''octo'' ''demo'' ''main''), Sent (GetCommit ''octo'' ''demo'' ''c0'')]
         @ blob_requests ''octo'' ''demo'' demo_files
         @ [Sent (PostTree ''octo'' ''demo'' ''t0'' (blob_entries demo_files [''b1'', ''b2''])),
            Sent (PostCommit ''octo'' ''demo''
                    ''Add Selenium test script for run test-run-1000'' ''t1'' [''c0'']),
            Sent (PatchRef ''octo'' ''demo'' ''main'' ''c1'' False)]"
proof -
  from commitFiles_one_commit_with_all_files [THEN iffD1, OF demo_commit]
  obtain latest r1 baseTree r2 shas r3 tree where
    chain: "get_ref host_api ''octo'' ''demo'' ''main'' demo_host = (Inr latest, r1)"
      "get_commit host_api ''octo'' ''demo'' latest r1 = (Inr baseTree, r2)"
      "blob_answers host_api ''octo'' ''demo'' demo_files r2 = (map Inr shas, r3)"
      "length shas = length demo_files"
      "take 7 (tl first_requests)
         = [Sent (GetRef ''octo'' ''demo'' ''main''), Sent (GetCommit ''octo'' ''demo'' latest)]
           @ blob_requests ''octo'' ''demo'' demo_files
           @ [Sent (PostTree ''octo'' ''demo'' baseTree (blob_entries demo_files shas)),
              Sent (PostCommit ''octo'' ''demo''
                      ''Add Selenium test script for run test-run-1000'' tree [latest]),
              Sent (PatchRef ''octo'' ''demo'' ''main'' ''c1'' False)]"
    by auto
  from chain(4) obtain x y where xy: "shas = [x, y]"
    by (cases shas; cases "tl shas") (auto simp: demo_files_def)
  have sent: "blob_requests ''octo'' ''demo'' demo_files
      = [Sent (PostBlob ''octo'' ''demo'' ''cHJpbnQoMSk='' ''base64''),
         Sent (PostBlob ''octo'' ''demo'' ''b246IHdvcmtmbG93X2Rpc3BhdGNo'' ''base64'')]"
    by (simp add: blob_requests_def demo_files_def b64_def)
  from chain(5) xy have vals: "latest = ''c0''" "baseTree = ''t0''" "tree = ''t1''" "x = ''b1''" "y = ''b2''"
    by (auto simp: first_requests_def sent blob_entries_def demo_files_def)
  from chain(3) xy vals have "\<exists>r2 r3. blob_answers host_api ''octo'' ''demo'' demo_files r2
      = ([Inr ''b1'', Inr ''b2''], r3)"
    by auto
  moreover from chain(5) xy vals have "take 7 (tl first_requests)
       = [Sent (GetRef ''octo'' ''demo'' ''main''), Sent (GetCommit ''octo'' ''demo'' ''c0'')]
         @ blob_requests ''octo'' ''demo'' demo_files
         @ [Sent (PostTree ''octo'' ''demo'' ''t0'' (blob_entries demo_files [''b1'', ''b2''])),
            Sent (PostCommit ''octo'' ''demo''
                    ''Add Selenium test script for run test-run-1000'' ''t1'' [''c0'']),
            Sent (PatchRef ''octo'' ''demo'' ''main'' ''c1'' False)]"
    by simp
  ultimately show ?thesis
    using demo_commit by simp
qed

subsection \<open>C5: deleting a repository that is already absent\<close>

text \<open>
  C5, as the code has it. The repository-deletion step is not idempotent. For a
  registered run, \<open>deleteRepo\<close> succeeds exactly when the platform accepts the delete
  request, and then \<open>deleteRun\<close> answers 200 and removes the run from the registry.
  When the platform rejects the request, as it does with \<open>Not Found\<close> for a
  repository that is already absent, \<open>deleteRepo\<close> raises an \<open>Error\<close> made from the
  platform's answer, and \<open>deleteRun\<close> answers 500 with its message and keeps the run
  registered, so that a retry sends the delete request again.
\<close>

theorem deleteRepo_failure_is_raised:
  assumes "activeRuns s rid = Some md"
    and "delete_repo api (owner md) (repo md) (remote (net s)) = (answer, r')"
  shows "fst (deleteRepo api (owner md) (repo md) (net s)) =
           (case answer of
              Inl e \<Rightarrow> Inl (handleError e ''Failed to delete repository'')
            | Inr u \<Rightarrow> Inr ''Repository deleted successfully'')
       \<and> deleteRun api rid s =
           (case answer of
              Inl e \<Rightarrow>
                (\<lparr>statusCode = 500,
                  json = Failure (error_message (handleError e ''Failed to delete repository''))\<rparr>,
                 s\<lparr>net := \<lparr>remote = r',
                              trace = trace (net s) @ [Sent (DeleteRepo (owner md) (repo md))]\<rparr>\<rparr>)
            | Inr u \<Rightarrow>
                (\<lparr>statusCode = 200, json = Success ''Test run and repository deleted successfully''\<rparr>,
                 \<lparr>activeRuns = (activeRuns s)(rid := None),
                  net = \<lparr>remote = r',
                          trace = trace (net s) @ [Sent (DeleteRepo (owner md) (repo md))]\<rparr>\<rparr>))"
  using assms
  by (simp add: deleteRun_def deleteRepo_def catch500_def await_def service_def rethrow_def send_def
      return_def handleError_message_nonempty split: prod.splits sum.splits)

lemma orphaned_eq:
  "activeRuns orphaned = [''test-run-1000'' \<mapsto> first_metadata (Some 1)]"
  "hosted (remote (net orphaned)) = None"
  "trace (net orphaned) = first_requests"
  by (simp_all add: orphaned_def prompt_first_eq)

theorem deleteRepo_failure_is_raised_witness:
  "activeRuns orphaned ''test-run-1000'' = Some (first_metadata (Some 1))
   \<and> fst (delete_repo host_api ''octo'' ''demo'' (remote (net orphaned))) = Inl not_found
   \<and> fst (deleteRun host_api ''test-run-1000'' orphaned)
       = \<lparr>statusCode = 500, json = Failure ''Failed to delete repository: Not Found''\<rparr>
   \<and> activeRuns (snd (deleteRun host_api ''test-run-1000'' orphaned)) = activeRuns orphaned
   \<and> trace (net (snd (deleteRun host_api ''test-run-1000'' orphaned)))
       = first_requests @ [Sent (DeleteRepo ''octo'' ''demo'')]"
proof -
  have reg: "activeRuns orphaned ''test-run-1000'' = Some (first_metadata (Some 1))"
    by (simp add: orphaned_eq)
  have gone: "delete_repo host_api (owner (first_metadata (Some 1))) (repo (first_metadata (Some 1)))
                (remote (net orphaned)) = (Inl not_found, remote (net orphaned))"
    by (simp add: host_api_simps host_delete_repo_def holds_def orphaned_eq)
  from gone have gone': "fst (delete_repo host_api ''octo'' ''demo'' (remote (net orphaned))) = Inl not_found"
    by (simp add: first_metadata_def)
  from deleteRepo_failure_is_raised [OF reg gone]
  have "fst (deleteRun host_api ''test-run-1000'' orphaned)
       = \<lparr>statusCode = 500, json = Failure ''Failed to delete repository: Not Found''\<rparr>
   \<and> activeRuns (snd (deleteRun host_api ''test-run-1000'' orphaned)) = activeRuns orphaned
   \<and> trace (net (snd (deleteRun host_api ''test-run-1000'' orphaned)))
       = first_requests @ [Sent (DeleteRepo ''octo'' ''demo'')]"
    by (simp add: handleError_def Error_def not_found_def refused_def orphaned_eq
        first_metadata_def)
  with reg gone' show ?thesis
    by blast
qed

text \<open>
  C5 as stated fails. Deleting the repository of an account that holds none raises an
  error; and for the run of the first request, whose repository has disappeared,
  \<open>deleteRun\<close> answers 500 and the run stays registered.
\<close>

theorem deleting_absent_repository_raises:
  "fst (deleteRepo host_api ''octo'' ''demo'' \<lparr>remote = fresh_host, trace = []\<rparr>)
     = Inl (Error ''Failed to delete repository: Not Found'')
   \<and> fst (deleteRun host_api ''test-run-1000'' orphaned)
     = \<lparr>statusCode = 500, json = Failure ''Failed to delete repository: Not Found''\<rparr>
   \<and> activeRuns (snd (deleteRun host_api ''test-run-1000'' orphaned)) ''test-run-1000''
     = Some (first_metadata (Some 1))"
  unfolding orphaned_def
  by (simp add: prompt_first_eq deleteRun_def service_defs host_defs)

subsection \<open>C6: a dispatch whose run is not listed\<close>

text \<open>
  C6, as the code has it. There is no correlation deadline and no
  \<open>CorrelationTimeoutError\<close>. After a dispatch that succeeded, the answer to the one
  run-list request decides the reply: when the request fails the reply is 500 with the
  message of the failure; when it is answered, with any list, the reply is 201, and for
  the empty list it carries no workflow run id and no workflow URL.
\<close>

theorem empty_run_list_is_not_a_failure:
  assumes "truthy (testScript body)" and "typeof (testScript body) = ''string''"
    and "dispatchRun api githubUsername template timestamp body s = (Inr repoResult, s1)"
  shows "fst (createTestRun api githubUsername template timestamp nowIso body s) =
     (case fst (get_runs api (owner_of (fullName repoResult)) (repo_of (fullName repoResult)) 1
                  (remote (net s1))) of
        Inl e \<Rightarrow>
          \<lparr>statusCode = 500,
           json = Failure (error_message (handleError e ''Failed to fetch workflow runs''))\<rparr>
      | Inr (listing, n) \<Rightarrow>
          \<lparr>statusCode = 201,
           json = Created (''test-run-'' @ decimal timestamp)
                    (map_option gh_id (first_run listing)) (fullName repoResult)
                    (''https://github.com/'' @ fullName repoResult)
                    (map_option gh_html_url (first_run listing)) ''queued''
                    ''Test run created and workflow triggered successfully''\<rparr>)"
  using assms
  by (simp add: createTestRun_steps split: prod.splits sum.splits)

theorem empty_run_list_is_not_a_failure_witness:
  "truthy (testScript demo_body) \<and> typeof (testScript demo_body) = ''string''
   \<and> (\<exists>s1. dispatchRun host_api ''octo'' (Inr ''on: workflow_dispatch'') 1000 demo_body (boot slow_host)
             = (Inr \<lparr>fullName = ''octo/demo'', defaultBranch = ''main'', alreadyExists = False\<rparr>, s1)
           \<and> fst (get_runs host_api ''octo'' ''demo'' 1 (remote (net s1))) = Inr ([], 0))
   \<and> fst (createTestRun host_api ''octo'' (Inr ''on: workflow_dispatch'') 1000
            ''2025-11-24T10:29:55Z'' demo_body (boot slow_host))
       = \<lparr>statusCode = 201,
          json = Created ''test-run-1000'' None ''octo/demo'' ''https://github.com/octo/demo''
                   None ''queued'' ''Test run created and workflow triggered successfully''\<rparr>"
proof -
  have valid: "truthy (testScript demo_body)" "typeof (testScript demo_body) = ''string''"
    by (simp_all add: demo_body_def)
  let ?s1 = "snd (dispatchRun host_api ''octo'' (Inr ''on: workflow_dispatch'') 1000 demo_body
                 (boot slow_host))"
  have d: "dispatchRun host_api ''octo'' (Inr ''on: workflow_dispatch'') 1000 demo_body (boot slow_host)
             = (Inr \<lparr>fullName = ''octo/demo'', defaultBranch = ''main'', alreadyExists = False\<rparr>, ?s1)"
    by (simp add: slow_dispatch)
  have g: "fst (get_runs host_api ''octo'' ''demo'' 1 (remote (net ?s1))) = Inr ([], 0)"
    by (simp add: slow_dispatch host_api_simps host_get_runs_def holds_def)
  from empty_run_list_is_not_a_failure [OF valid d, of "''2025-11-24T10:29:55Z''"] g
  have "fst (createTestRun host_api ''octo'' (Inr ''on: workflow_dispatch'') 1000
            ''2025-11-24T10:29:55Z'' demo_body (boot slow_host))
       = \<lparr>statusCode = 201,
          json = Created ''test-run-1000'' None ''octo/demo'' ''https://github.com/octo/demo''
                   None ''queued'' ''Test run created and workflow triggered successfully''\<rparr>"
    by (simp add: owner_of_def repo_of_def first_run_def decimal.simps)
  with valid d g show ?thesis
    by blast
qed

text \<open>
  C6 as stated fails. On the slow platform the run list is empty after the dispatch of
  the first request, no run is ever observed, and the request is answered with 201 and
  registered with no workflow run id.
\<close>

theorem empty_run_list_succeeds_silently:
  "listed (remote (net (snd slow_first))) = []
   \<and> statusCode (fst slow_first) = 201
   \<and> created_workflowRunId (json (fst slow_first)) = None
   \<and> map_option workflowRunId (activeRuns (snd slow_first) ''test-run-1000'') = Some None"
  by (simp add: slow_first_eq first_metadata_def)

subsection \<open>C7: unknown run ids\<close>

text \<open>
  C7. For every run id that is not registered, each of \<open>getStatus\<close>, \<open>getLogs\<close> and
  \<open>deleteRun\<close> answers with status 404 and the error \<open>Test run not found\<close>, sends
  nothing to the platform and leaves the registry as it is.
\<close>

theorem unregistered_runId_not_found:
  assumes "activeRuns s rid = None"
  shows "getStatus api nowIso rid s = (\<lparr>statusCode = 404, json = Failure ''Test run not found''\<rparr>, s)
       \<and> getLogs api rid s = (\<lparr>statusCode = 404, json = Failure ''Test run not found''\<rparr>, s)
       \<and> deleteRun api rid s = (\<lparr>statusCode = 404, json = Failure ''Test run not found''\<rparr>, s)"
  using assms by (simp add: getStatus_def getLogs_def deleteRun_def catch500_def)

theorem unregistered_runId_not_found_witness:
  "activeRuns (snd prompt_first) ''test-run-2000'' = None
   \<and> getStatus host_api ''2025-11-24T10:35:00Z'' ''test-run-2000'' (snd prompt_first)
       = (\<lparr>statusCode = 404, json = Failure ''Test run not found''\<rparr>, snd prompt_first)
   \<and> getLogs host_api ''test-run-2000'' (snd prompt_first)
       = (\<lparr>statusCode = 404, json = Failure ''Test run not found''\<rparr>, snd prompt_first)
   \<and> deleteRun host_api ''test-run-2000'' (snd prompt_first)
       = (\<lparr>statusCode = 404, json = Failure ''Test run not found''\<rparr>, snd prompt_first)"
proof -
  have unknown: "activeRuns (snd prompt_first) ''test-run-2000'' = None"
    by (simp add: prompt_first_eq)
  from unregistered_runId_not_found [OF unknown, of host_api "''2025-11-24T10:35:00Z''"] unknown
  show ?thesis
    by blast
qed

subsection \<open>C8: run ids\<close>

text \<open>
  C8, as the code has it. The run id of a creation is \<open>test-run-\<close> followed by the
  reading of the clock in milliseconds, and the run is registered under it. Two
  creations that succeed (reply 201) have the same run id exactly when they read the
  same millisecond: run ids are distinct for distinct clock readings only.
\<close>

theorem runId_determined_by_timestamp:
  assumes "statusCode (fst (createTestRun api1 user1 template1 timestamp1 nowIso1 body1 s1)) = 201"
    and "statusCode (fst (createTestRun api2 user2 template2 timestamp2 nowIso2 body2 s2)) = 201"
  shows "(created_runId (json (fst (createTestRun api1 user1 template1 timestamp1 nowIso1 body1 s1)))
          = created_runId (json (fst (createTestRun api2 user2 template2 timestamp2 nowIso2 body2 s2))))
         = (timestamp1 = timestamp2)
       \<and> map_option runId
           (activeRuns (snd (createTestRun api1 user1 template1 timestamp1 nowIso1 body1 s1))
              (created_runId (json (fst (createTestRun api1 user1 template1 timestamp1 nowIso1 body1 s1)))))
         = Some (''test-run-'' @ decimal timestamp1)"
  using createTestRun_created [OF assms(1)] createTestRun_created [OF assms(2)]
  by (auto dest: decimal_inj)

lemma slow_second_reply:
  "fst slow_second =
     \<lparr>statusCode = 201,
      json = Created ''test-run-2000'' (Some 1) ''octo/demo'' ''https://github.com/octo/demo''
               (Some ''https://github.com/octo/demo/actions/runs/1'') ''queued''
               ''Test run created and workflow triggered successfully''\<rparr>"
  unfolding slow_second_def
  by (simp add: slow_first_eq createTestRun_def service_defs host_defs)

theorem runId_determined_by_timestamp_witness:
  "statusCode (fst slow_first) = 201 \<and> statusCode (fst slow_second) = 201
   \<and> created_runId (json (fst slow_first)) \<noteq> created_runId (json (fst slow_second))"
proof -
  have one: "statusCode (fst (createTestRun host_api ''octo'' (Inr ''on: workflow_dispatch'') 1000
               ''2025-11-24T10:29:55Z'' demo_body (boot slow_host))) = 201"
    using slow_first_eq by (simp add: slow_first_def)
  have two: "statusCode (fst (createTestRun host_api ''octo'' (Inr ''on: workflow_dispatch'') 2000
               ''2025-11-24T10:29:56Z'' other_body (snd slow_first))) = 201"
    using slow_second_reply by (simp add: slow_second_def)
  from runId_determined_by_timestamp [OF one two] one two
  show ?thesis
    by (simp add: slow_first_def slow_second_def)
qed

text \<open>
  C8 as stated fails. Two creations read the same millisecond 1000: both succeed, both
  get the run id \<open>test-run-1000\<close>, and the registry then holds one run under that id,
  the second one.
\<close>

theorem same_millisecond_same_runId:
  "statusCode (fst prompt_first) = 201 \<and> statusCode (fst same_ms_second) = 201
   \<and> created_runId (json (fst prompt_first)) = ''test-run-1000''
   \<and> created_runId (json (fst same_ms_second)) = ''test-run-1000''
   \<and> map_option testName (activeRuns (snd prompt_first) ''test-run-1000'') = Some ''selenium-test''
   \<and> map_option testName (activeRuns (snd same_ms_second) ''test-run-1000'') = Some ''second''"
  unfolding same_ms_second_def
  by (simp add: prompt_first_eq createTestRun_def service_defs host_defs)

subsection \<open>C9: requests without a test script\<close>

text \<open>
  C9. For every creation request whose \<open>testScript\<close> is missing or is not a string,
  the reply is status 400 with the error \<open>testScript is required and must be a
  string\<close>, and nothing else happens: nothing is sent to the platform (no repository is
  created, nothing is committed or dispatched) and the registry is as it was.
\<close>

theorem invalid_testScript_rejected:
  assumes "testScript body = Undefined \<or> typeof (testScript body) \<noteq> ''string''"
  shows "createTestRun api githubUsername template timestamp nowIso body s =
           (\<lparr>statusCode = 400, json = Failure ''testScript is required and must be a string''\<rparr>, s)"
proof -
  from assms have "typeof (testScript body) \<noteq> ''string''"
    by auto
  then show ?thesis
    by (simp add: createTestRun_def catch500_def return_def)
qed

theorem invalid_testScript_rejected_witness:
  "(testScript (demo_body\<lparr>testScript := Number 42\<rparr>) = Undefined
      \<or> typeof (testScript (demo_body\<lparr>testScript := Number 42\<rparr>)) \<noteq> ''string'')
   \<and> createTestRun host_api ''octo'' (Inr ''on: workflow_dispatch'') 1000 ''2025-11-24T10:29:55Z''
         (demo_body\<lparr>testScript := Number 42\<rparr>) (boot fresh_host)
       = (\<lparr>statusCode = 400, json = Failure ''testScript is required and must be a string''\<rparr>,
          boot fresh_host)
   \<and> createTestRun host_api ''octo'' (Inr ''on: workflow_dispatch'') 1000 ''2025-11-24T10:29:55Z''
         (demo_body\<lparr>testScript := Undefined\<rparr>) (boot fresh_host)
       = (\<lparr>statusCode = 400, json = Failure ''testScript is required and must be a string''\<rparr>,
          boot fresh_host)"
proof -
  have number: "testScript (demo_body\<lparr>testScript := Number 42\<rparr>) = Undefined
      \<or> typeof (testScript (demo_body\<lparr>testScript := Number 42\<rparr>)) \<noteq> ''string''"
    by simp
  have missing: "testScript (demo_body\<lparr>testScript := Undefined\<rparr>) = Undefined
      \<or> typeof (testScript (demo_body\<lparr>testScript := Undefined\<rparr>)) \<noteq> ''string''"
    by simp
  from invalid_testScript_rejected [OF number] invalid_testScript_rejected [OF missing] number
  show ?thesis
    by blast
qed

subsection \<open>C10: a run registered without a workflow run\<close>

text \<open>
  C10. There are executions in which the run list is empty right after the dispatch
  (the first request on the slow platform is one). In every such execution \<open>createTestRun\<close> answers 201 and
  registers a TestRun whose \<open>workflowRunId\<close> is undefined and whose status is
  \<open>queued\<close>; a \<open>getStatus\<close> for that run id then asks the platform for the run with
  the undefined identifier.
\<close>

theorem empty_run_list_registers_undefined_workflowRunId:
  assumes "truthy (testScript body)" and "typeof (testScript body) = ''string''"
    and "dispatchRun api githubUsername template timestamp body s = (Inr repoResult, s1)"
    and "get_runs api (owner_of (fullName repoResult)) (repo_of (fullName repoResult)) 1
           (remote (net s1)) = (Inr ([], n), r2)"
    and "(r, s') = createTestRun api githubUsername template timestamp nowIso body s"
  shows "statusCode r = 201
       \<and> created_workflowRunId (json r) = None
       \<and> activeRuns s' (''test-run-'' @ decimal timestamp) =
           Some \<lparr>runId = ''test-run-'' @ decimal timestamp,
                 owner = owner_of (fullName repoResult), repo = repo_of (fullName repoResult),
                 repoFullName = fullName repoResult, workflowRunId = None,
                 testName = (case req_testName body of None \<Rightarrow> ''selenium-test'' | Some n \<Rightarrow> n),
                 createdAt = nowIso, status = ''queued'', conclusion = None, updatedAt = None\<rparr>
       \<and> trace (net (snd (getStatus api later (''test-run-'' @ decimal timestamp) s')))
           = trace (net s') @ [Sent (GetRun (owner_of (fullName repoResult))
                                      (repo_of (fullName repoResult)) None)]"
proof -
  from assms have reg: "statusCode r = 201 \<and> created_workflowRunId (json r) = None
       \<and> activeRuns s' (''test-run-'' @ decimal timestamp) =
           Some \<lparr>runId = ''test-run-'' @ decimal timestamp,
                 owner = owner_of (fullName repoResult), repo = repo_of (fullName repoResult),
                 repoFullName = fullName repoResult, workflowRunId = None,
                 testName = (case req_testName body of None \<Rightarrow> ''selenium-test'' | Some n \<Rightarrow> n),
                 createdAt = nowIso, status = ''queued'', conclusion = None, updatedAt = None\<rparr>"
    by (simp add: createTestRun_steps first_run_def)
  then show ?thesis
    using getStatus_trace [of s' "''test-run-'' @ decimal timestamp" _ api later]
    by simp
qed

theorem empty_run_list_registers_undefined_workflowRunId_witness:
  "statusCode (fst slow_first) = 201
   \<and> created_workflowRunId (json (fst slow_first)) = None
   \<and> activeRuns (snd slow_first) ''test-run-1000'' = Some (first_metadata None)
   \<and> workflowRunId (first_metadata None) = None \<and> status (first_metadata None) = ''queued''
   \<and> trace (net (snd (getStatus host_api ''2025-11-24T10:35:00Z'' ''test-run-1000'' (snd slow_first))))
       = first_requests @ [Sent (GetRun ''octo'' ''demo'' None)]"
proof -
  have valid: "truthy (testScript demo_body)" "typeof (testScript demo_body) = ''string''"
    by (simp_all add: demo_body_def)
  let ?s1 = "snd (dispatchRun host_api ''octo'' (Inr ''on: workflow_dispatch'') 1000 demo_body
                 (boot slow_host))"
  have d: "dispatchRun host_api ''octo'' (Inr ''on: workflow_dispatch'') 1000 demo_body (boot slow_host)
             = (Inr \<lparr>fullName = ''octo/demo'', defaultBranch = ''main'', alreadyExists = False\<rparr>, ?s1)"
    by (simp add: slow_dispatch)
  have g: "get_runs host_api
             (owner_of (fullName \<lparr>fullName = ''octo/demo'', defaultBranch = ''main'', alreadyExists = False\<rparr>))
             (repo_of (fullName \<lparr>fullName = ''octo/demo'', defaultBranch = ''main'', alreadyExists = False\<rparr>))
             1 (remote (net ?s1)) = (Inr ([], 0), remote (net ?s1))"
    by (simp add: slow_dispatch host_api_simps host_get_runs_def holds_def owner_of_def repo_of_def)
  have c: "(fst slow_first, snd slow_first)
             = createTestRun host_api ''octo'' (Inr ''on: workflow_dispatch'') 1000
                 ''2025-11-24T10:29:55Z'' demo_body (boot slow_host)"
    by (simp add: slow_first_def)
  from empty_run_list_registers_undefined_workflowRunId
         [OF valid d g c, of "''2025-11-24T10:35:00Z''"]
  show ?thesis
    by (simp add: owner_of_def repo_of_def decimal.simps demo_body_def first_metadata_def
        slow_first_eq)
qed

end
